theory Spec2Isabelle
  imports Main "HOL-Library.Sublist"
begin

section \<open>JavaScript strings and values\<close>

text \<open>
  A JavaScript string is a sequence of UTF-16 code units. It is modelled as the list of
  its code units, each a natural number, so that every string the browser can hold is a
  value of the type. \<open>lit\<close> turns a literal of the source into that form.
\<close>

type_synonym jsstring = "nat list"

definition lit :: "string \<Rightarrow> jsstring" where
  "lit s = map of_char s"

text \<open>
  The code units that \<open>String.prototype.trim\<close> removes: the WhiteSpace and
  LineTerminator productions of ECMAScript (TAB, LF, VT, FF, CR, SP, NBSP, U+1680,
  U+2000 to U+200A, U+2028, U+2029, U+202F, U+205F, U+3000, U+FEFF).
\<close>

definition is_ws :: "nat \<Rightarrow> bool" where
  "is_ws c \<longleftrightarrow>
     c \<in> set [9, 10, 11, 12, 13, 32, 160, 5760, 8232, 8233, 8239, 8287, 12288, 65279]
     \<or> (8192 \<le> c \<and> c \<le> 8202)"

definition trim :: "jsstring \<Rightarrow> jsstring" where
  "trim s = rev (dropWhile is_ws (rev (dropWhile is_ws s)))"

text \<open>\<open>s.split(sep)\<close> for a one-unit separator: \<open>''''.split('','')\<close> is \<open>['''']\<close>.\<close>

fun split_on :: "nat \<Rightarrow> jsstring \<Rightarrow> jsstring list" where
  "split_on sep [] = [[]]"
| "split_on sep (c # cs) =
     (if c = sep then [] # split_on sep cs
      else (case split_on sep cs of
              [] \<Rightarrow> [[c]]
            | p # ps \<Rightarrow> (c # p) # ps))"

text \<open>\<open>xs.join(sep)\<close> on an array of strings.\<close>

fun join :: "jsstring \<Rightarrow> jsstring list \<Rightarrow> jsstring" where
  "join sep [] = []"
| "join sep [x] = x"
| "join sep (x # y # ys) = x @ sep @ join sep (y # ys)"

text \<open>The decimal digits of a number, as a template literal prints a status code.\<close>

fun show_nat :: "nat \<Rightarrow> jsstring" where
  "show_nat n = (if n < 10 then [48 + n] else show_nat (n div 10) @ [48 + n mod 10])"

declare show_nat.simps [simp del]

text \<open>A template literal prints a missing property as \<open>undefined\<close>.\<close>

fun interp :: "jsstring option \<Rightarrow> jsstring" where
  "interp None = lit ''undefined''"
| "interp (Some s) = s"

text \<open>Truthiness of an optional string: \<open>undefined\<close>, \<open>null\<close> and \<open>''''\<close> are falsy.\<close>

fun truthy :: "jsstring option \<Rightarrow> bool" where
  "truthy None = False"
| "truthy (Some s) = (s \<noteq> [])"

datatype json =
    JNull
  | JBool bool
  | JNum int
  | JStr jsstring
  | JArr "json list"
  | JObj "(jsstring \<times> json) list"

text \<open>
  What a \<open>catch\<close> clause receives: an \<open>Error\<close> instance with its message, or any other
  thrown value.
\<close>

datatype js_thrown = ErrorObj jsstring | NonError

section \<open>The debug service\<close>

datatype level = Info | Warn | Error | Success

record DebugEntry =
  timestamp :: jsstring
  entry_level :: level
  component :: jsstring
  message :: jsstring
  data :: "json option"
  stack :: "jsstring option"

text \<open>
  \<open>maxEntries\<close> is a private field initialised to 100 and written nowhere in the
  class, so it is a constant of the model.
\<close>

definition maxEntries :: nat where
  "maxEntries = 100"

record DebugService =
  entries :: "DebugEntry list"
  isEnabled :: bool

definition new_DebugService :: "bool \<Rightarrow> DebugService" where
  "new_DebugService on_localhost = \<lparr>entries = [], isEnabled = on_localhost\<rparr>"

text \<open>
  \<open>xs.slice(start)\<close>: a negative start counts from the end, and the start is clamped
  to the bounds of the array.
\<close>

definition slice_from :: "int \<Rightarrow> 'a list \<Rightarrow> 'a list" where
  "slice_from start xs =
     (let len = int (length xs);
          k = (if start < 0 then max (len + start) 0 else min start len)
      in drop (nat k) xs)"

fun toUpperCase_level :: "level \<Rightarrow> jsstring" where
  "toUpperCase_level Info = lit ''INFO''"
| "toUpperCase_level Warn = lit ''WARN''"
| "toUpperCase_level Error = lit ''ERROR''"
| "toUpperCase_level Success = lit ''SUCCESS''"

datatype console_channel = ConsoleError | ConsoleWarn | ConsoleLog

type_synonym console_call = "console_channel \<times> jsstring \<times> json option"

text \<open>
  \<open>log\<close> reads the clock (\<open>now\<close>, the ISO timestamp) and, for an error, the stack of
  a fresh \<open>Error\<close> (\<open>trace\<close>): both are inputs of the model. It returns the new state
  of the service and the call it makes on the console. The check mark that prefixes a
  success line is the code unit U+2705.
\<close>

definition log ::
  "DebugService \<Rightarrow> level \<Rightarrow> jsstring \<Rightarrow> jsstring \<Rightarrow> json option \<Rightarrow> jsstring \<Rightarrow> jsstring option
     \<Rightarrow> DebugService \<times> console_call" where
  "log s lv cmpt msg d now trace =
     (let entry = \<lparr>timestamp = now, entry_level = lv, component = cmpt, message = msg,
                    data = d, stack = (if lv = Error then trace else None)\<rparr>;
          pushed = entries s @ [entry];
          kept = (if length pushed > maxEntries
                  then slice_from (- int maxEntries) pushed else pushed);
          logMessage = lit ''['' @ timestamp entry @ lit ''] '' @ toUpperCase_level lv
                       @ lit '' '' @ cmpt @ lit '': '' @ msg
      in (s\<lparr>entries := kept\<rparr>,
          (case lv of
             Error \<Rightarrow> (ConsoleError, logMessage, d)
           | Warn \<Rightarrow> (ConsoleWarn, logMessage, d)
           | Success \<Rightarrow> (ConsoleLog, [9989, 32] @ logMessage, d)
           | Info \<Rightarrow> (ConsoleLog, logMessage, d))))"

definition info ::
  "DebugService \<Rightarrow> jsstring \<Rightarrow> jsstring \<Rightarrow> json option \<Rightarrow> jsstring \<Rightarrow> jsstring option
     \<Rightarrow> DebugService \<times> console_call" where
  "info s cmpt msg d now trace = log s Info cmpt msg d now trace"

definition warn ::
  "DebugService \<Rightarrow> jsstring \<Rightarrow> jsstring \<Rightarrow> json option \<Rightarrow> jsstring \<Rightarrow> jsstring option
     \<Rightarrow> DebugService \<times> console_call" where
  "warn s cmpt msg d now trace = log s Warn cmpt msg d now trace"

definition error ::
  "DebugService \<Rightarrow> jsstring \<Rightarrow> jsstring \<Rightarrow> json option \<Rightarrow> jsstring \<Rightarrow> jsstring option
     \<Rightarrow> DebugService \<times> console_call" where
  "error s cmpt msg d now trace = log s Error cmpt msg d now trace"

definition success ::
  "DebugService \<Rightarrow> jsstring \<Rightarrow> jsstring \<Rightarrow> json option \<Rightarrow> jsstring \<Rightarrow> jsstring option
     \<Rightarrow> DebugService \<times> console_call" where
  "success s cmpt msg d now trace = log s Success cmpt msg d now trace"

section \<open>The extension-type catalogs\<close>

datatype icon = Extension | Code | Monitor | Settings

record ExtensionType =
  et_id :: jsstring
  et_name :: jsstring
  et_description :: jsstring
  et_complexity :: jsstring
  et_examples :: "jsstring list"

record ExtensionTypeWithIcon = ExtensionType +
  et_icon :: icon

text \<open>The catalog of \<open>simple-extension-creator.tsx\<close>.\<close>

definition extensionTypes_simple :: "ExtensionType list" where
  "extensionTypes_simple =
    [\<lparr>et_id = lit ''popup'',
      et_name = lit ''Popup Extension'',
      et_description = lit ''Extension with a popup interface accessible from the browser toolbar'',
      et_complexity = lit ''Simple'',
      et_examples = [lit ''Password generator'', lit ''Unit converter'', lit ''Quick notes'']\<rparr>,
     \<lparr>et_id = lit ''content_script'',
      et_name = lit ''Content Script Extension'',
      et_description = lit ''Extension that modifies or enhances web pages'',
      et_complexity = lit ''Medium'',
      et_examples = [lit ''Ad blocker'', lit ''Page translator'', lit ''Social media enhancer'']\<rparr>,
     \<lparr>et_id = lit ''background'',
      et_name = lit ''Background Extension'',
      et_description = lit ''Extension with background processing capabilities'',
      et_complexity = lit ''Advanced'',
      et_examples = [lit ''System monitor'', lit ''Auto-backup'', lit ''Notification manager'']\<rparr>,
     \<lparr>et_id = lit ''devtools'',
      et_name = lit ''DevTools Extension'',
      et_description = lit ''Extension that adds panels to Chrome Developer Tools'',
      et_complexity = lit ''Advanced'',
      et_examples = [lit ''React DevTools'', lit ''Performance profiler'', lit ''API inspector'']\<rparr>,
     \<lparr>et_id = lit ''options'',
      et_name = lit ''Options Extension'',
      et_description = lit ''Extension with a dedicated options/settings page'',
      et_complexity = lit ''Simple'',
      et_examples = [lit ''Theme customizer'', lit ''Privacy settings'', lit ''Feature toggles'']\<rparr>]"

text \<open>The catalog of \<open>extension-creator.tsx\<close>: the same entries, each with an icon.\<close>

definition extensionTypes_creator :: "ExtensionTypeWithIcon list" where
  "extensionTypes_creator =
    [\<lparr>et_id = lit ''popup'',
      et_name = lit ''Popup Extension'',
      et_description = lit ''Extension with a popup interface accessible from the browser toolbar'',
      et_complexity = lit ''Simple'',
      et_examples = [lit ''Password generator'', lit ''Unit converter'', lit ''Quick notes''],
      et_icon = Extension\<rparr>,
     \<lparr>et_id = lit ''content_script'',
      et_name = lit ''Content Script Extension'',
      et_description = lit ''Extension that modifies or enhances web pages'',
      et_complexity = lit ''Medium'',
      et_examples = [lit ''Ad blocker'', lit ''Page translator'', lit ''Social media enhancer''],
      et_icon = Code\<rparr>,
     \<lparr>et_id = lit ''background'',
      et_name = lit ''Background Extension'',
      et_description = lit ''Extension with background processing capabilities'',
      et_complexity = lit ''Advanced'',
      et_examples = [lit ''System monitor'', lit ''Auto-backup'', lit ''Notification manager''],
      et_icon = Monitor\<rparr>,
     \<lparr>et_id = lit ''devtools'',
      et_name = lit ''DevTools Extension'',
      et_description = lit ''Extension that adds panels to Chrome Developer Tools'',
      et_complexity = lit ''Advanced'',
      et_examples = [lit ''React DevTools'', lit ''Performance profiler'', lit ''API inspector''],
      et_icon = Settings\<rparr>,
     \<lparr>et_id = lit ''options'',
      et_name = lit ''Options Extension'',
      et_description = lit ''Extension with a dedicated options/settings page'',
      et_complexity = lit ''Simple'',
      et_examples = [lit ''Theme customizer'', lit ''Privacy settings'', lit ''Feature toggles''],
      et_icon = Settings\<rparr>]"

definition complexity_tiers :: "jsstring list" where
  "complexity_tiers = [lit ''Simple'', lit ''Medium'', lit ''Advanced'']"

text \<open>The entry that \<open>log\<close> pushes.\<close>

definition mk_entry ::
  "level \<Rightarrow> jsstring \<Rightarrow> jsstring \<Rightarrow> json option \<Rightarrow> jsstring \<Rightarrow> jsstring option \<Rightarrow> DebugEntry" where
  "mk_entry lv cmpt msg d now trace =
     \<lparr>timestamp = now, entry_level = lv, component = cmpt, message = msg,
      data = d, stack = (if lv = Error then trace else None)\<rparr>"

section \<open>Requests and responses\<close>

datatype http_method = GET | POST

text \<open>
  The arguments of a call of \<open>fetch\<close>. The body is the value handed to
  \<open>JSON.stringify\<close>, and \<open>None\<close> when the call gives no body.
\<close>

record request =
  req_url :: jsstring
  req_method :: http_method
  req_headers :: "(jsstring \<times> jsstring) list"
  req_body :: "json option"

text \<open>
  A response as the handlers read it: the status line, the body as text, and the result
  of \<open>response.json()\<close>, which throws on a body that is not JSON. A body that parses is
  an object, and its fields are read at the types the handlers use them at.
\<close>

record 'a response =
  status :: nat
  statusText :: jsstring
  body_text :: jsstring
  body_json :: "js_thrown + 'a"

text \<open>\<open>fetch\<close> resolves with a response or rejects (a network failure).\<close>

datatype 'a fetch_result = Rejected js_thrown | Responded "'a response"

definition ok :: "'a response \<Rightarrow> bool" where
  "ok r \<longleftrightarrow> 200 \<le> status r \<and> status r \<le> 299"

record recommendation_data =
  suggested_type :: "jsstring list option"
  complexity_score :: "jsstring option"
  estimated_development_time :: "jsstring option"
  required_permissions :: "jsstring list option"

text \<open>
  The analysis object. Of each entry of \<open>suggested_type\<close> only the \<open>type\<close> field is
  read, so the list holds these.
\<close>

record analysis_data =
  analysis_error :: "jsstring option"
  recommendations :: "recommendation_data option"

record extension_data =
  ext_error :: "jsstring option"
  extension_id :: "jsstring option"
  ext_name :: "jsstring option"
  ext_description :: "jsstring option"
  extension_type :: "jsstring option"
  ext_status :: "jsstring option"
  install_instructions :: "jsstring list option"
  download_url :: "jsstring option"

section \<open>The two creator components\<close>

text \<open>
  The state of \<open>ChromeExtensionCreator\<close> (\<open>extension-creator.tsx\<close>): one field for
  each \<open>useState\<close>. \<open>SimpleExtensionCreator\<close> has the same fields and a debug log. An
  entry of the log is the type and the message; the time of day that prefixes the
  printed line is left out.
\<close>

record creator_state =
  step :: nat
  prompt :: jsstring
  selectedType :: jsstring
  selectedPermissions :: "jsstring list"
  targetWebsites :: jsstring
  isGenerating :: bool
  generationProgress :: nat
  analysis :: "analysis_data option"
  generatedExtension :: "extension_data option"

datatype log_type = LInfo | LError | LSuccess

record simple_state = creator_state +
  debugLog :: "(log_type \<times> jsstring) list"

definition initial_creator :: creator_state where
  "initial_creator =
     \<lparr>step = 1, prompt = [], selectedType = [], selectedPermissions = [],
      targetWebsites = [], isGenerating = False, generationProgress = 0,
      analysis = None, generatedExtension = None\<rparr>"

definition initial_simple :: simple_state where
  "initial_simple =
     \<lparr>step = 1, prompt = [], selectedType = [], selectedPermissions = [],
      targetWebsites = [], isGenerating = False, generationProgress = 0,
      analysis = None, generatedExtension = None, debugLog = []\<rparr>"

definition addDebugLog :: "jsstring \<Rightarrow> log_type \<Rightarrow> simple_state \<Rightarrow> simple_state" where
  "addDebugLog msg ty st = st\<lparr>debugLog := debugLog st @ [(ty, msg)]\<rparr>"

text \<open>\<open>targetWebsites.split('','').map(s => s.trim()).filter(Boolean)\<close>\<close>

definition parse_target_websites :: "jsstring \<Rightarrow> jsstring list" where
  "parse_target_websites raw = filter (\<lambda>s. s \<noteq> []) (map trim (split_on 44 raw))"

text \<open>The object both components stringify into the body of the generate request.\<close>

definition generate_body :: "'a creator_state_scheme \<Rightarrow> json" where
  "generate_body st =
     JObj [(lit ''prompt'', JStr (prompt st)),
           (lit ''extension_type'', JStr (selectedType st)),
           (lit ''permissions'', JArr (map JStr (selectedPermissions st))),
           (lit ''target_websites'', JArr (map JStr (parse_target_websites (targetWebsites st))))]"

text \<open>
  The timer of the progress bar: every 500 ms it adds 10 to the progress until 95 is
  reached. How often it fires while the request is in flight is an input (\<open>ticks\<close>).
\<close>

definition progress_tick :: "nat \<Rightarrow> nat" where
  "progress_tick prev = (if prev \<ge> 95 then 95 else prev + 10)"

subsection \<open>\<open>ChromeExtensionCreator\<close>\<close>

definition analyze_request_creator :: request where
  "analyze_request_creator =
     \<lparr>req_url = lit ''/api/chrome-extension/analyze'',
      req_method = GET,
      req_headers = [(lit ''Content-Type'', lit ''application/json'')],
      req_body = None\<rparr>"

text \<open>The auto-suggestion of type and permissions from the analysis.\<close>

definition auto_suggest_creator :: "analysis_data \<Rightarrow> creator_state \<Rightarrow> creator_state" where
  "auto_suggest_creator d st =
     (let s1 = (case recommendations d of
                  None \<Rightarrow> st
                | Some r \<Rightarrow> (case suggested_type r of
                               Some (t # ts) \<Rightarrow> st\<lparr>selectedType := t\<rparr>
                             | _ \<Rightarrow> st))
      in (case recommendations d of
            None \<Rightarrow> s1
          | Some r \<Rightarrow> (case required_permissions r of
                         Some ps \<Rightarrow> s1\<lparr>selectedPermissions := ps\<rparr>
                       | None \<Rightarrow> s1)))"

text \<open>
  A handler returns the state it leaves and the requests it has sent. The \<open>try\<close> block
  is the inner \<open>case\<close>: it gives the state reached and whether something was thrown; the
  \<open>catch\<close> of this component only prints to the console, and \<open>finally\<close> resets the flag.
\<close>

definition handleAnalyzePrompt_creator ::
  "(request \<Rightarrow> analysis_data fetch_result) \<Rightarrow> creator_state \<Rightarrow> creator_state \<times> request list" where
  "handleAnalyzePrompt_creator fetch st =
     (if trim (prompt st) = [] then (st, [])
      else
        (let s1 = st\<lparr>isGenerating := True, generationProgress := 25\<rparr>;
             tried =
               (case fetch analyze_request_creator of
                  Rejected e \<Rightarrow> (s1, Some e)
                | Responded r \<Rightarrow>
                    (case body_json r of
                       Inl e \<Rightarrow> (s1, Some e)
                     | Inr d \<Rightarrow>
                         ((auto_suggest_creator d
                             (s1\<lparr>analysis := Some d, generationProgress := 50\<rparr>))
                            \<lparr>step := 2\<rparr>, None)))
         in ((fst tried)\<lparr>isGenerating := False, generationProgress := 0\<rparr>,
             [analyze_request_creator])))"

definition generate_request_creator :: "creator_state \<Rightarrow> request" where
  "generate_request_creator st =
     \<lparr>req_url = lit ''/api/chrome-extension/generate'',
      req_method = POST,
      req_headers = [(lit ''Content-Type'', lit ''application/json'')],
      req_body = Some (generate_body st)\<rparr>"

text \<open>
  \<open>onExtensionGenerated\<close> is an optional property of the component; the model of a
  callback says whether it throws on the data it is given.
\<close>

definition handleGenerateExtension_creator ::
  "(extension_data \<Rightarrow> js_thrown option) option \<Rightarrow> (request \<Rightarrow> extension_data fetch_result) \<Rightarrow> nat
     \<Rightarrow> creator_state \<Rightarrow> creator_state \<times> request list" where
  "handleGenerateExtension_creator onExtensionGenerated fetch ticks st =
     (let s0 = st\<lparr>isGenerating := True, generationProgress := 0\<rparr>;
          req = generate_request_creator st;
          s1 = s0\<lparr>generationProgress := (progress_tick ^^ ticks) (generationProgress s0)\<rparr>;
          tried =
            (case fetch req of
               Rejected e \<Rightarrow> (s1, Some e)
             | Responded r \<Rightarrow>
                 (case body_json r of
                    Inl e \<Rightarrow> (s1, Some e)
                  | Inr d \<Rightarrow>
                      (let s2 = s1\<lparr>generatedExtension := Some d, generationProgress := 100\<rparr>
                       in (case onExtensionGenerated of
                             None \<Rightarrow> (s2\<lparr>step := 3\<rparr>, None)
                           | Some cb \<Rightarrow>
                               (case cb d of
                                  Some e \<Rightarrow> (s2, Some e)
                                | None \<Rightarrow> (s2\<lparr>step := 3\<rparr>, None))))))
      in ((fst tried)\<lparr>isGenerating := False\<rparr>, [req]))"

subsection \<open>\<open>SimpleExtensionCreator\<close>\<close>

text \<open>
  The headers of both requests of this component: the bearer token is added when
  \<open>localStorage.getItem('auth_token')\<close> is truthy.
\<close>

definition headers_simple :: "jsstring option \<Rightarrow> (jsstring \<times> jsstring) list" where
  "headers_simple auth_token =
     (lit ''Content-Type'', lit ''application/json'') #
     (case auth_token of
        None \<Rightarrow> []
      | Some t \<Rightarrow> (if t \<noteq> [] then [(lit ''Authorization'', lit ''Bearer '' @ t)] else []))"

definition analyze_request_simple :: "jsstring option \<Rightarrow> simple_state \<Rightarrow> request" where
  "analyze_request_simple auth_token st =
     \<lparr>req_url = lit ''/api/chrome-extension/analyze'',
      req_method = POST,
      req_headers = headers_simple auth_token,
      req_body = Some (JObj [(lit ''prompt'', JStr (prompt st))])\<rparr>"

definition auto_suggest_simple :: "analysis_data \<Rightarrow> simple_state \<Rightarrow> simple_state" where
  "auto_suggest_simple d st =
     (let s1 = (case recommendations d of
                  None \<Rightarrow> st
                | Some r \<Rightarrow> (case suggested_type r of
                               Some (t # ts) \<Rightarrow>
                                 addDebugLog (lit ''Auto-selected extension type: '' @ t) LInfo
                                   (st\<lparr>selectedType := t\<rparr>)
                             | _ \<Rightarrow> st))
      in (case recommendations d of
            None \<Rightarrow> s1
          | Some r \<Rightarrow> (case required_permissions r of
                         Some ps \<Rightarrow>
                           addDebugLog (lit ''Auto-selected permissions: '' @ join (lit '', '') ps)
                             LInfo (s1\<lparr>selectedPermissions := ps\<rparr>)
                       | None \<Rightarrow> s1)))"

text \<open>The message a \<open>catch\<close> clause of this component derives from what was thrown.\<close>

fun error_message :: "jsstring \<Rightarrow> js_thrown \<Rightarrow> jsstring" where
  "error_message fallback (ErrorObj m) = m"
| "error_message fallback NonError = fallback"

definition handleAnalyzePrompt_simple ::
  "jsstring option \<Rightarrow> (request \<Rightarrow> analysis_data fetch_result) \<Rightarrow> simple_state
     \<Rightarrow> simple_state \<times> request list" where
  "handleAnalyzePrompt_simple auth_token fetch st =
     (if trim (prompt st) = [] then (addDebugLog (lit ''No prompt provided'') LError st, [])
      else
        (let s1 = addDebugLog (lit ''Starting extension analysis...'') LInfo
                    (st\<lparr>isGenerating := True, generationProgress := 25\<rparr>);
             req = analyze_request_simple auth_token st;
             tried =
               (case fetch req of
                  Rejected e \<Rightarrow> (s1, Some e)
                | Responded r \<Rightarrow>
                    (let s2 = addDebugLog (lit ''API Response Status: '' @ show_nat (status r))
                                LInfo s1
                     in if \<not> ok r then
                          (addDebugLog
                             (lit ''API Error: '' @ show_nat (status r) @ lit '' '' @ statusText r
                                @ lit '' - '' @ body_text r) LError s2,
                           Some (ErrorObj (lit ''Analysis failed: '' @ show_nat (status r)
                                             @ lit '' '' @ statusText r)))
                        else
                          (case body_json r of
                             Inl e \<Rightarrow> (s2, Some e)
                           | Inr d \<Rightarrow>
                               (let s3 = addDebugLog (lit ''Analysis completed successfully'')
                                           LSuccess s2
                                in ((auto_suggest_simple d
                                       (s3\<lparr>analysis := Some d, generationProgress := 50\<rparr>))
                                      \<lparr>step := 2\<rparr>, None)))));
             caught =
               (case snd tried of
                  None \<Rightarrow> fst tried
                | Some e \<Rightarrow>
                    (let errorMessage = error_message (lit ''Analysis failed. Please try again.'') e
                     in (addDebugLog (lit ''Analysis error: '' @ errorMessage) LError (fst tried))
                          \<lparr>analysis :=
                             Some \<lparr>analysis_error = Some errorMessage,
                                   recommendations =
                                     Some \<lparr>suggested_type = None,
                                           complexity_score = Some (lit ''Unknown''),
                                           estimated_development_time = Some (lit ''Unknown''),
                                           required_permissions = Some []\<rparr>\<rparr>\<rparr>))
         in (caught\<lparr>isGenerating := False, generationProgress := 0\<rparr>, [req])))"

definition generate_request_simple :: "jsstring option \<Rightarrow> simple_state \<Rightarrow> request" where
  "generate_request_simple auth_token st =
     \<lparr>req_url = lit ''/api/chrome-extension/generate'',
      req_method = POST,
      req_headers = headers_simple auth_token,
      req_body = Some (generate_body st)\<rparr>"

text \<open>The record the \<open>catch\<close> clause shows in place of a generated extension.\<close>

definition failed_extension :: "jsstring \<Rightarrow> extension_data" where
  "failed_extension errorMessage =
     \<lparr>ext_error = Some errorMessage,
      extension_id = Some [],
      ext_name = Some [],
      ext_description = Some [],
      extension_type = Some [],
      ext_status = Some (lit ''failed''),
      install_instructions = Some [],
      download_url = None\<rparr>"

definition handleGenerateExtension_simple ::
  "(extension_data \<Rightarrow> js_thrown option) option \<Rightarrow> jsstring option
     \<Rightarrow> (request \<Rightarrow> extension_data fetch_result) \<Rightarrow> nat
     \<Rightarrow> simple_state \<Rightarrow> simple_state \<times> request list" where
  "handleGenerateExtension_simple onExtensionGenerated auth_token fetch ticks st =
     (let s0 = addDebugLog (lit ''Starting extension generation...'') LInfo
                 (st\<lparr>isGenerating := True, generationProgress := 0\<rparr>);
          req = generate_request_simple auth_token st;
          s1 = s0\<lparr>generationProgress := (progress_tick ^^ ticks) (generationProgress s0)\<rparr>;
          tried =
            (case fetch req of
               Rejected e \<Rightarrow> (s1, Some e)
             | Responded r \<Rightarrow>
                 (let s2 = addDebugLog
                             (lit ''Generation API Response Status: '' @ show_nat (status r))
                             LInfo s1
                  in if \<not> ok r then
                       (addDebugLog
                          (lit ''Generation API Error: '' @ show_nat (status r) @ lit '' ''
                             @ statusText r @ lit '' - '' @ body_text r) LError s2,
                        Some (ErrorObj (lit ''Extension generation failed: ''
                                          @ show_nat (status r) @ lit '' '' @ statusText r)))
                     else
                       (case body_json r of
                          Inl e \<Rightarrow> (s2, Some e)
                        | Inr d \<Rightarrow>
                            (let s3 = (addDebugLog
                                         (lit ''Extension generated successfully: ''
                                            @ interp (ext_name d)) LSuccess s2)
                                        \<lparr>generatedExtension := Some d,
                                         generationProgress := 100\<rparr>
                             in (case onExtensionGenerated of
                                   None \<Rightarrow> (s3\<lparr>step := 3\<rparr>, None)
                                 | Some cb \<Rightarrow>
                                     (case cb d of
                                        Some e \<Rightarrow> (s3, Some e)
                                      | None \<Rightarrow> (s3\<lparr>step := 3\<rparr>, None)))))));
          caught =
            (case snd tried of
               None \<Rightarrow> fst tried
             | Some e \<Rightarrow>
                 (let errorMessage =
                        error_message (lit ''Extension generation failed. Please try again.'') e
                  in (addDebugLog (lit ''Generation error: '' @ errorMessage) LError (fst tried))
                       \<lparr>generatedExtension := Some (failed_extension errorMessage),
                        step := 3\<rparr>))
      in (caught\<lparr>isGenerating := False\<rparr>, [req]))"

text \<open>The updater \<open>togglePermission\<close> gives to \<open>setSelectedPermissions\<close>.\<close>

definition toggle :: "jsstring \<Rightarrow> jsstring list \<Rightarrow> jsstring list" where
  "toggle permissionId prev =
     (if permissionId \<in> set prev
      then filter (\<lambda>p. p \<noteq> permissionId) prev
      else prev @ [permissionId])"

definition togglePermission :: "jsstring \<Rightarrow> simple_state \<Rightarrow> simple_state" where
  "togglePermission permissionId st =
     addDebugLog (lit ''Permission toggled: '' @ permissionId) LInfo
       (st\<lparr>selectedPermissions := toggle permissionId (selectedPermissions st)\<rparr>)"

subsection \<open>What the components render\<close>

text \<open>
  The card the component shows for its state (\<open>step === 1 && ...\<close>, \<open>step === 2 && ...\<close>,
  \<open>step === 3 && generatedExtension && ...\<close>), and the overlay with the spinner, which
  is there while \<open>isGenerating\<close> holds.
\<close>

datatype view =
    DescribeCard
  | ConfigureCard
  | SuccessCard extension_data
  | FailureCard jsstring
  | NoCard

text \<open>
  The third step of \<open>ChromeExtensionCreator\<close> has one card, headed
  "Extension Generated Successfully!", whatever the data says.
\<close>

definition render_creator :: "creator_state \<Rightarrow> view" where
  "render_creator st =
     (if step st = 1 then DescribeCard
      else if step st = 2 then ConfigureCard
      else if step st = 3 then
        (case generatedExtension st of None \<Rightarrow> NoCard | Some d \<Rightarrow> SuccessCard d)
      else NoCard)"

text \<open>
  \<open>SimpleExtensionCreator\<close> shows "Extension Generation Failed" with the error when
  \<open>generatedExtension.error\<close> is truthy.
\<close>

definition render_simple :: "simple_state \<Rightarrow> view" where
  "render_simple st =
     (if step st = 1 then DescribeCard
      else if step st = 2 then ConfigureCard
      else if step st = 3 then
        (case generatedExtension st of
           None \<Rightarrow> NoCard
         | Some d \<Rightarrow> (if truthy (ext_error d) then FailureCard (interp (ext_error d))
                      else SuccessCard d))
      else NoCard)"

definition spinner :: "'a creator_state_scheme \<Rightarrow> bool" where
  "spinner st = isGenerating st"

text \<open>\<open>disabled={!prompt.trim() || isGenerating}\<close> on the analyze button.\<close>

definition analyze_disabled :: "'a creator_state_scheme \<Rightarrow> bool" where
  "analyze_disabled st \<longleftrightarrow> trim (prompt st) = [] \<or> isGenerating st"

text \<open>\<open>disabled={!selectedType || isGenerating}\<close> on the generate button.\<close>

definition generate_disabled :: "'a creator_state_scheme \<Rightarrow> bool" where
  "generate_disabled st \<longleftrightarrow> selectedType st = [] \<or> isGenerating st"

text \<open>
  The input for the target websites is rendered for the type \<open>content_script\<close> only;
  both components label it "Target Websites (optional)".
\<close>

definition target_websites_label :: "'a creator_state_scheme \<Rightarrow> jsstring option" where
  "target_websites_label st =
     (if selectedType st = lit ''content_script''
      then Some (lit ''Target Websites (optional)'') else None)"

text \<open>A click on the generate button runs the handler unless the button is disabled.\<close>

definition click_generate_creator ::
  "(extension_data \<Rightarrow> js_thrown option) option \<Rightarrow> (request \<Rightarrow> extension_data fetch_result) \<Rightarrow> nat
     \<Rightarrow> creator_state \<Rightarrow> creator_state \<times> request list" where
  "click_generate_creator cb fetch ticks st =
     (if generate_disabled st then (st, [])
      else handleGenerateExtension_creator cb fetch ticks st)"

definition click_generate_simple ::
  "(extension_data \<Rightarrow> js_thrown option) option \<Rightarrow> jsstring option
     \<Rightarrow> (request \<Rightarrow> extension_data fetch_result) \<Rightarrow> nat
     \<Rightarrow> simple_state \<Rightarrow> simple_state \<times> request list" where
  "click_generate_simple cb auth_token fetch ticks st =
     (if generate_disabled st then (st, [])
      else handleGenerateExtension_simple cb auth_token fetch ticks st)"

section \<open>The template \<open>popup_timer.json\<close>\<close>

record TemplateManifest =
  manifest_version :: nat
  mf_name :: jsstring
  mf_version :: jsstring
  mf_description :: jsstring
  mf_permissions :: "jsstring list"
  mf_action :: "(jsstring \<times> jsstring) list"
  mf_icons :: "(jsstring \<times> jsstring) list"

text \<open>
  The template as the file has it. Of \<open>files\<close> the model keeps the paths; the bodies
  (markup, style sheet and script of the popup) are left out.
\<close>

record Template =
  t_name :: jsstring
  t_description :: jsstring
  t_type :: jsstring
  t_complexity :: jsstring
  t_estimated_time :: jsstring
  t_permissions :: "jsstring list"
  t_manifest :: TemplateManifest
  t_files :: "jsstring list"
  t_install_instructions :: "jsstring list"
  t_features :: "jsstring list"
  t_use_cases :: "jsstring list"

definition popup_timer :: Template where
  "popup_timer =
     \<lparr>t_name = lit ''Pomodoro Timer Extension'',
      t_description = lit ''A productivity timer extension with Pomodoro technique support'',
      t_type = lit ''popup'',
      t_complexity = lit ''Simple'',
      t_estimated_time = lit ''10-15 minutes'',
      t_permissions = [lit ''storage'', lit ''notifications'', lit ''alarms''],
      t_manifest =
        \<lparr>manifest_version = 3,
         mf_name = lit ''AI Generated Pomodoro Timer'',
         mf_version = lit ''1.0.0'',
         mf_description = lit ''A Pomodoro timer to boost your productivity'',
         mf_permissions = [lit ''storage'', lit ''notifications'', lit ''alarms''],
         mf_action = [(lit ''default_popup'', lit ''popup.html''),
                      (lit ''default_title'', lit ''Pomodoro Timer'')],
         mf_icons = [(lit ''16'', lit ''icons/icon16.png''),
                     (lit ''32'', lit ''icons/icon32.png''),
                     (lit ''48'', lit ''icons/icon48.png''),
                     (lit ''128'', lit ''icons/icon128.png'')]\<rparr>,
      t_files = [lit ''popup.html'', lit ''popup.css'', lit ''popup.js''],
      t_install_instructions =
        [lit ''1. Download and extract the extension files'',
         lit ''2. Open Chrome and go to chrome://extensions/'',
         lit ''3. Enable 'Developer mode' in the top right'',
         lit ''4. Click 'Load unpacked' and select the extension folder'',
         lit ''5. The Pomodoro timer icon will appear in your toolbar'',
         lit ''6. Click the icon to start using your productivity timer!''],
      t_features =
        [lit ''25/5 minute work/break timer (customizable)'',
         lit ''Visual and audio notifications'',
         lit ''Session tracking and statistics'',
         lit ''Persistent settings storage'',
         lit ''Clean, modern interface'',
         lit ''Keyboard shortcuts support''],
      t_use_cases =
        [lit ''Productivity enhancement'',
         lit ''Time management'',
         lit ''Focus improvement'',
         lit ''Work-life balance'',
         lit ''Study sessions'']\<rparr>"

section \<open>The generation service\<close>

text \<open>
  Modelled from the spec: the analysis and generation service of the backend
  (\<open>backend/app/services/chrome_extension_generator.py\<close> and the endpoints in front of
  it) is not among the sources. The definitions of this section follow sections 3, 4, 6
  and 7 of the specification. What the specification leaves to a collaborator is a
  parameter: the permission catalog, the template store, the packager, the model
  provider and the ranking heuristic.
\<close>

text \<open>Modelled from the spec: the archetypes of the catalog (section 3).\<close>

datatype archetype = Popup | ContentScript | Background | DevTools | Options

text \<open>
  Modelled from the spec: the kinds of error of section 7 that analysis and generation
  can end with (\<open>NotFound\<close> and \<open>Forbidden\<close> belong to the download).
\<close>

datatype error_kind =
    InvalidInput
  | MissingConfiguration
  | TemplateMissing
  | ProviderError
  | PackagingError

text \<open>Modelled from the spec: the lifecycle states of an artifact (section 3).\<close>

datatype lifecycle = Pending | Analyzing | Building | Packaging | Complete | Failed

text \<open>Modelled from the spec: the archetype a catalog id names (section 3).\<close>

definition archetype_of :: "jsstring \<Rightarrow> archetype option" where
  "archetype_of t =
     (if t = lit ''popup'' then Some Popup
      else if t = lit ''content_script'' then Some ContentScript
      else if t = lit ''background'' then Some Background
      else if t = lit ''devtools'' then Some DevTools
      else if t = lit ''options'' then Some Options
      else None)"

text \<open>Modelled from the spec: the body of \<open>POST /generate\<close> with the user id (section 3).\<close>

record GenerationRequest =
  gr_prompt :: jsstring
  gr_extension_type :: jsstring
  gr_permissions :: "jsstring list"
  gr_target_websites :: "jsstring list"
  gr_user_id :: nat

text \<open>
  Modelled from the spec: validation (sections 3 and 4.2). The archetype is a known
  catalog value, every permission id is in the catalog, the prompt is not empty and
  every target-site pattern is a non-empty string. It gives the archetype of an
  accepted request.
\<close>

definition validate :: "jsstring list \<Rightarrow> GenerationRequest \<Rightarrow> error_kind + archetype" where
  "validate catalog req =
     (case archetype_of (gr_extension_type req) of
        None \<Rightarrow> Inl InvalidInput
      | Some a \<Rightarrow>
          (if \<not> list_all (\<lambda>p. p \<in> set catalog) (gr_permissions req) then Inl InvalidInput
           else if gr_prompt req = [] then Inl InvalidInput
           else if \<not> list_all (\<lambda>w. w \<noteq> []) (gr_target_websites req) then Inl InvalidInput
           else Inr a))"

text \<open>Modelled from the spec: a file set maps relative paths to text (section 3).\<close>

type_synonym FileSet = "(jsstring \<times> jsstring) list"

text \<open>
  Modelled from the spec: the component builders (section 4.3). A content script needs
  at least one target-site pattern and fails with \<open>MissingConfiguration\<close> without one;
  a builder fails with \<open>TemplateMissing\<close> when the template store has nothing for the
  archetype.
\<close>

definition build ::
  "(archetype \<Rightarrow> FileSet option) \<Rightarrow> archetype \<Rightarrow> GenerationRequest \<Rightarrow> error_kind + FileSet" where
  "build templates a req =
     (if a = ContentScript \<and> gr_target_websites req = [] then Inl MissingConfiguration
      else (case templates a of
              None \<Rightarrow> Inl TemplateMissing
            | Some files \<Rightarrow> Inr files))"

text \<open>
  Modelled from the spec: what the manifest declares (sections 3 and 4.2): the
  archetype, the permissions and the host permissions.
\<close>

record Manifest =
  m_archetype :: archetype
  m_permissions :: "jsstring list"
  m_host_permissions :: "jsstring list"

text \<open>
  Modelled from the spec: the manifest is assembled from the archetype, the declared
  permissions and, for a content script, the target-site patterns (section 4.2).
\<close>

definition assemble_manifest :: "archetype \<Rightarrow> GenerationRequest \<Rightarrow> Manifest" where
  "assemble_manifest a req =
     \<lparr>m_archetype = a,
      m_permissions = gr_permissions req,
      m_host_permissions = (if a = ContentScript then gr_target_websites req else [])\<rparr>"

text \<open>Modelled from the spec: the persisted artifact (section 3), without its timestamps.\<close>

record GeneratedArtifact =
  ga_id :: nat
  ga_user_id :: nat
  ga_archetype :: archetype
  ga_permissions :: "jsstring list"
  ga_files :: FileSet
  ga_manifest :: "Manifest option"
  ga_state :: lifecycle
  ga_handle :: "jsstring option"
  ga_error :: "error_kind option"

text \<open>
  Modelled from the spec: the orchestrator (section 4.2). A rejected request creates no
  record (\<open>Inl\<close>). An accepted one is created as \<open>Pending\<close>, moves to \<open>Building\<close>, and
  ends as \<open>Failed\<close> with the error of the builder or of the packager, or as \<open>Complete\<close>
  with the handle of the archive. \<open>new_id\<close> is the identity the persistence layer
  assigns.
\<close>

definition generate ::
  "jsstring list \<Rightarrow> (archetype \<Rightarrow> FileSet option) \<Rightarrow> (nat \<Rightarrow> FileSet \<Rightarrow> Manifest \<Rightarrow> jsstring option)
     \<Rightarrow> nat \<Rightarrow> GenerationRequest \<Rightarrow> error_kind + GeneratedArtifact" where
  "generate catalog templates packager new_id req =
     (case validate catalog req of
        Inl e \<Rightarrow> Inl e
      | Inr a \<Rightarrow>
          (let pending = \<lparr>ga_id = new_id, ga_user_id = gr_user_id req, ga_archetype = a,
                          ga_permissions = gr_permissions req, ga_files = [],
                          ga_manifest = None, ga_state = Pending, ga_handle = None,
                          ga_error = None\<rparr>;
               building = pending\<lparr>ga_state := Building\<rparr>
           in (case build templates a req of
                 Inl e \<Rightarrow> Inr (building\<lparr>ga_state := Failed, ga_error := Some e\<rparr>)
               | Inr files \<Rightarrow>
                   (let m = assemble_manifest a req;
                        packaging = building\<lparr>ga_files := files, ga_manifest := Some m,
                                             ga_state := Packaging\<rparr>
                    in (case packager new_id files m of
                          None \<Rightarrow>
                            Inr (packaging\<lparr>ga_state := Failed,
                                           ga_error := Some PackagingError\<rparr>)
                        | Some h \<Rightarrow>
                            Inr (packaging\<lparr>ga_state := Complete, ga_handle := Some h\<rparr>))))))"

text \<open>
  Modelled from the spec: the shape of a request at the HTTP boundary (sections 6 and
  7). A request that validation rejects has not the shape, and neither has a content
  script without a target-site pattern: \<open>MissingConfiguration\<close> is treated as
  \<open>InvalidInput\<close> at the boundary.
\<close>

definition request_shape :: "jsstring list \<Rightarrow> GenerationRequest \<Rightarrow> error_kind + archetype" where
  "request_shape catalog req =
     (case validate catalog req of
        Inl e \<Rightarrow> Inl e
      | Inr a \<Rightarrow>
          (if a = ContentScript \<and> gr_target_websites req = [] then Inl InvalidInput
           else Inr a))"

text \<open>
  Modelled from the spec: \<open>POST /generate\<close> (section 6), as the status code and the
  artifact of the answer. A violation of the shape is caught before any artifact is
  created and answered with 400. Otherwise the orchestrator runs and its artifact is
  returned with 200, whether it is complete or failed.
\<close>

definition post_generate ::
  "jsstring list \<Rightarrow> (archetype \<Rightarrow> FileSet option) \<Rightarrow> (nat \<Rightarrow> FileSet \<Rightarrow> Manifest \<Rightarrow> jsstring option)
     \<Rightarrow> nat \<Rightarrow> GenerationRequest \<Rightarrow> nat \<times> GeneratedArtifact option" where
  "post_generate catalog templates packager new_id req =
     (case request_shape catalog req of
        Inl e \<Rightarrow> (400, None)
      | Inr a \<Rightarrow>
          (case generate catalog templates packager new_id req of
             Inl e \<Rightarrow> (400, None)
           | Inr art \<Rightarrow> (200, Some art)))"

text \<open>
  Modelled from the spec: the fields \<open>status\<close> and \<open>error\<close> of the artifact summary
  that \<open>POST /generate\<close> returns (section 6).
\<close>

definition summary_status :: "GeneratedArtifact \<Rightarrow> jsstring" where
  "summary_status a =
     (case ga_state a of
        Pending \<Rightarrow> lit ''pending''
      | Analyzing \<Rightarrow> lit ''analyzing''
      | Building \<Rightarrow> lit ''building''
      | Packaging \<Rightarrow> lit ''packaging''
      | Complete \<Rightarrow> lit ''complete''
      | Failed \<Rightarrow> lit ''failed'')"

text \<open>Modelled from the spec: the error detail of a failed artifact, as text.\<close>

fun error_text :: "error_kind \<Rightarrow> jsstring" where
  "error_text InvalidInput = lit ''InvalidInput''"
| "error_text MissingConfiguration = lit ''MissingConfiguration''"
| "error_text TemplateMissing = lit ''TemplateMissing''"
| "error_text ProviderError = lit ''ProviderError''"
| "error_text PackagingError = lit ''PackagingError''"

definition summary_error :: "GeneratedArtifact \<Rightarrow> jsstring option" where
  "summary_error a = map_option error_text (ga_error a)"

text \<open>Modelled from the spec: the result of an analysis (section 3).\<close>

record AnalysisResult =
  ar_suggested_types :: "(archetype \<times> nat) list"
  ar_required_permissions :: "jsstring list"
  ar_complexity :: jsstring
  ar_estimated_time :: jsstring
  ar_degraded :: bool

text \<open>
  Modelled from the spec: the requirement analyzer (section 4.1). A prompt that is empty
  after trimming fails with \<open>InvalidInput\<close>. Otherwise the provider is asked, and when
  it fails (\<open>None\<close>) the analyzer falls back to the ranking heuristic, \<open>Medium\<close>
  complexity and the permission \<open>storage\<close>, and marks the result as degraded.
\<close>

definition analyze ::
  "(jsstring \<Rightarrow> AnalysisResult option) \<Rightarrow> (jsstring \<Rightarrow> (archetype \<times> nat) list) \<Rightarrow> jsstring
     \<Rightarrow> jsstring \<Rightarrow> error_kind + AnalysisResult" where
  "analyze provider rank default_time p =
     (if trim p = [] then Inl InvalidInput
      else (case provider p of
              Some r \<Rightarrow> Inr (r\<lparr>ar_degraded := False\<rparr>)
            | None \<Rightarrow>
                Inr \<lparr>ar_suggested_types = rank p,
                     ar_required_permissions = [lit ''storage''],
                     ar_complexity = lit ''Medium'',
                     ar_estimated_time = default_time,
                     ar_degraded = True\<rparr>))"

text \<open>
  Modelled from the spec: the status code of \<open>POST /analyze\<close> (section 6): 200 on a
  processed request, 400 on a missing or empty prompt.
\<close>

definition analyze_status :: "error_kind + AnalysisResult \<Rightarrow> nat" where
  "analyze_status res = (case res of Inl e \<Rightarrow> 400 | Inr r \<Rightarrow> 200)"

section \<open>Properties\<close>

subsection \<open>Strings\<close>

lemma trim_nil_iff: "trim s = [] \<longleftrightarrow> list_all is_ws s"
proof
  assume t: "trim s = []"
  have "dropWhile is_ws s = []"
  proof (rule ccontr)
    assume ne: "dropWhile is_ws s \<noteq> []"
    then have "\<not> is_ws (hd (dropWhile is_ws s))" by (rule hd_dropWhile)
    moreover have "hd (dropWhile is_ws s) \<in> set (dropWhile is_ws s)" using ne by simp
    moreover have "\<forall>x\<in>set (dropWhile is_ws s). is_ws x"
      using t by (simp add: trim_def)
    ultimately show False by blast
  qed
  then show "list_all is_ws s" by (simp add: list_all_iff)
next
  assume "list_all is_ws s"
  then have d: "dropWhile is_ws s = []" by (simp add: list_all_iff)
  show "trim s = []" unfolding trim_def d by simp
qed

lemma trim_not_blank: "trim s \<noteq> [] \<Longrightarrow> \<not> list_all is_ws (trim s)"
proof -
  assume ne: "trim s \<noteq> []"
  then have "dropWhile is_ws (rev (dropWhile is_ws s)) \<noteq> []" by (simp add: trim_def)
  then have "\<not> is_ws (hd (dropWhile is_ws (rev (dropWhile is_ws s))))" by (rule hd_dropWhile)
  then have "\<not> is_ws (last (trim s))" using ne by (simp add: trim_def last_rev)
  moreover have "last (trim s) \<in> set (trim s)" using ne by simp
  ultimately show ?thesis by (auto simp: list_all_iff)
qed

lemma parse_target_websites_nonblank:
  "w \<in> set (parse_target_websites raw) \<Longrightarrow> w \<noteq> [] \<and> \<not> list_all is_ws w"
  by (auto simp: parse_target_websites_def trim_not_blank)

subsection \<open>The requests the handlers send\<close>

lemma snd_generate_creator:
  "snd (handleGenerateExtension_creator cb f k st) = [generate_request_creator st]"
  by (simp add: handleGenerateExtension_creator_def Let_def)

lemma snd_generate_simple:
  "snd (handleGenerateExtension_simple cb tok f k st) = [generate_request_simple tok st]"
  by (simp add: handleGenerateExtension_simple_def Let_def)

lemma creator_analyze_requests:
  "snd (handleAnalyzePrompt_creator f st) =
     (if trim (prompt st) = [] then [] else [analyze_request_creator])"
  by (simp add: handleAnalyzePrompt_creator_def Let_def)

lemma simple_analyze_requests:
  "snd (handleAnalyzePrompt_simple tok f st) =
     (if trim (prompt st) = [] then [] else [analyze_request_simple tok st])"
  by (simp add: handleAnalyzePrompt_simple_def Let_def)

lemma trim_timer: "trim (lit ''timer'') \<noteq> []"
  by (simp add: trim_def lit_def is_ws_def)

text \<open>
  C1. The claim is that every analysis started from the UI goes out as a POST with the
  prompt in its JSON body. Evaluated at the prompt \<open>timer\<close>: \<open>ChromeExtensionCreator\<close>
  sends a GET without a body, whatever the server answers, while
  \<open>SimpleExtensionCreator\<close> sends the POST with the prompt.
\<close>

theorem creator_analyze_sends_get:
  "snd (handleAnalyzePrompt_creator f (initial_creator\<lparr>prompt := lit ''timer''\<rparr>)) =
     [\<lparr>req_url = lit ''/api/chrome-extension/analyze'', req_method = GET,
       req_headers = [(lit ''Content-Type'', lit ''application/json'')],
       req_body = None\<rparr>]
   \<and> snd (handleAnalyzePrompt_simple tok f' (initial_simple\<lparr>prompt := lit ''timer''\<rparr>)) =
     [\<lparr>req_url = lit ''/api/chrome-extension/analyze'', req_method = POST,
       req_headers = headers_simple tok,
       req_body = Some (JObj [(lit ''prompt'', JStr (lit ''timer''))])\<rparr>]"
  by (simp add: creator_analyze_requests simple_analyze_requests trim_timer
        analyze_request_creator_def analyze_request_simple_def initial_creator_def
        initial_simple_def)

text \<open>
  C7. Whatever the user types into the target-websites input, both components send a
  generate request whose \<open>target_websites\<close> is the input split at the commas, each
  piece trimmed and the empty pieces dropped; no element of that list is empty or made
  of white space only.
\<close>

theorem target_websites_sent_nonblank:
  "snd (handleGenerateExtension_creator cb f k st) = [generate_request_creator st]
   \<and> snd (handleGenerateExtension_simple cb' tok f' k' st') = [generate_request_simple tok st']
   \<and> req_body (generate_request_creator st) =
       Some (JObj [(lit ''prompt'', JStr (prompt st)),
                   (lit ''extension_type'', JStr (selectedType st)),
                   (lit ''permissions'', JArr (map JStr (selectedPermissions st))),
                   (lit ''target_websites'',
                    JArr (map JStr (parse_target_websites (targetWebsites st))))])
   \<and> req_body (generate_request_simple tok st') =
       Some (JObj [(lit ''prompt'', JStr (prompt st')),
                   (lit ''extension_type'', JStr (selectedType st')),
                   (lit ''permissions'', JArr (map JStr (selectedPermissions st'))),
                   (lit ''target_websites'',
                    JArr (map JStr (parse_target_websites (targetWebsites st'))))])
   \<and> parse_target_websites raw = filter (\<lambda>s. s \<noteq> []) (map trim (split_on 44 raw))
   \<and> (\<forall>w \<in> set (parse_target_websites raw). w \<noteq> [] \<and> \<not> list_all is_ws w)"
  using parse_target_websites_nonblank [of _ raw]
  by (simp add: snd_generate_creator snd_generate_simple generate_request_creator_def
        generate_request_simple_def generate_body_def parse_target_websites_def)

theorem target_websites_sent_nonblank_witness:
  "parse_target_websites (lit ''a.com, ,b.org '') = [lit ''a.com'', lit ''b.org'']
   \<and> lit ''a.com'' \<noteq> [] \<and> \<not> list_all is_ws (lit ''a.com'')
   \<and> lit ''b.org'' \<noteq> [] \<and> \<not> list_all is_ws (lit ''b.org'')"
proof -
  have p: "parse_target_websites (lit ''a.com, ,b.org '') = [lit ''a.com'', lit ''b.org'']"
    by (simp add: parse_target_websites_def lit_def trim_def is_ws_def)
  have "\<forall>w \<in> set (parse_target_websites (lit ''a.com, ,b.org '')).
          w \<noteq> [] \<and> \<not> list_all is_ws w"
    using target_websites_sent_nonblank [of None "\<lambda>r. Rejected NonError" 0 initial_creator
        None None "\<lambda>r. Rejected NonError" 0 initial_simple "lit ''a.com, ,b.org ''"]
    by blast
  then show ?thesis unfolding p using p by simp
qed

subsection \<open>The catalog\<close>

text \<open>
  C8. The catalog of extension types of either component is a constant: the five
  entries \<open>popup\<close>, \<open>content_script\<close>, \<open>background\<close>, \<open>devtools\<close> and \<open>options\<close>, in
  this order and with distinct ids, each with a description, a complexity that is one of
  \<open>Simple\<close>, \<open>Medium\<close> and \<open>Advanced\<close>, and a non-empty list of example names. No
  handler of the components takes or returns the catalog, so nothing writes it.
\<close>

theorem extension_types_catalog:
  "map et_id extensionTypes_simple =
     [lit ''popup'', lit ''content_script'', lit ''background'', lit ''devtools'', lit ''options'']
   \<and> map et_id extensionTypes_creator = map et_id extensionTypes_simple
   \<and> map ExtensionType.truncate extensionTypes_creator = extensionTypes_simple
   \<and> distinct (map et_id extensionTypes_simple)
   \<and> length extensionTypes_simple = 5
   \<and> (\<forall>t \<in> set extensionTypes_simple.
         et_description t \<noteq> [] \<and> et_complexity t \<in> set complexity_tiers
         \<and> et_examples t \<noteq> [] \<and> (\<forall>e \<in> set (et_examples t). e \<noteq> []))
   \<and> (\<forall>t \<in> set extensionTypes_creator.
         et_description t \<noteq> [] \<and> et_complexity t \<in> set complexity_tiers
         \<and> et_examples t \<noteq> [] \<and> (\<forall>e \<in> set (et_examples t). e \<noteq> []))
   \<and> complexity_tiers = [lit ''Simple'', lit ''Medium'', lit ''Advanced'']"
proof -
  have ids: "map et_id extensionTypes_simple =
     [lit ''popup'', lit ''content_script'', lit ''background'', lit ''devtools'', lit ''options'']"
    by (simp add: extensionTypes_simple_def)
  have tr: "map ExtensionType.truncate extensionTypes_creator = extensionTypes_simple"
    by (simp add: extensionTypes_creator_def extensionTypes_simple_def
          ExtensionType.truncate_def)
  have ids': "map et_id extensionTypes_creator = map et_id extensionTypes_simple"
    by (simp add: extensionTypes_creator_def extensionTypes_simple_def)
  have dist: "distinct (map et_id extensionTypes_simple)"
    unfolding ids by (simp add: lit_def)
  have len: "length extensionTypes_simple = 5"
    by (simp add: extensionTypes_simple_def)
  have s: "\<forall>t \<in> set extensionTypes_simple.
         et_description t \<noteq> [] \<and> et_complexity t \<in> set complexity_tiers
         \<and> et_examples t \<noteq> [] \<and> (\<forall>e \<in> set (et_examples t). e \<noteq> [])"
    by (simp add: extensionTypes_simple_def lit_def complexity_tiers_def)
  have c: "\<forall>t \<in> set extensionTypes_creator.
         et_description t \<noteq> [] \<and> et_complexity t \<in> set complexity_tiers
         \<and> et_examples t \<noteq> [] \<and> (\<forall>e \<in> set (et_examples t). e \<noteq> [])"
    by (simp add: extensionTypes_creator_def lit_def complexity_tiers_def)
  show ?thesis
    using ids tr ids' dist len s c by (simp add: complexity_tiers_def)
qed

theorem extension_types_catalog_witness:
  "et_id (extensionTypes_simple ! 1) = lit ''content_script''
   \<and> et_description (extensionTypes_simple ! 1) \<noteq> []
   \<and> et_complexity (extensionTypes_simple ! 1) = lit ''Medium''
   \<and> et_examples (extensionTypes_simple ! 1) \<noteq> []
   \<and> et_description (extensionTypes_creator ! 1) \<noteq> []
   \<and> et_examples (extensionTypes_creator ! 1) \<noteq> []"
proof -
  have m: "extensionTypes_simple ! 1 \<in> set extensionTypes_simple"
    by (simp add: extensionTypes_simple_def)
  have m': "extensionTypes_creator ! 1 \<in> set extensionTypes_creator"
    by (simp add: extensionTypes_creator_def)
  have "et_description (extensionTypes_simple ! 1) \<noteq> []
        \<and> et_examples (extensionTypes_simple ! 1) \<noteq> []
        \<and> et_description (extensionTypes_creator ! 1) \<noteq> []
        \<and> et_examples (extensionTypes_creator ! 1) \<noteq> []"
    using extension_types_catalog m m' by blast
  moreover have "et_id (extensionTypes_simple ! 1) = lit ''content_script''
        \<and> et_complexity (extensionTypes_simple ! 1) = lit ''Medium''"
    by (simp add: extensionTypes_simple_def)
  ultimately show ?thesis by simp
qed

subsection \<open>The debug service\<close>

lemma slice_from_neg_last:
  "0 < n \<Longrightarrow> slice_from (- int n) xs = drop (length xs - n) xs"
  by (auto simp: slice_from_def Let_def max_def nat_diff_distrib')

lemma log_entries:
  "entries (fst (log s lv cmpt msg d now trace)) =
     drop (Suc (length (entries s)) - maxEntries)
       (entries s @ [mk_entry lv cmpt msg d now trace])"
proof -
  have pos: "0 < maxEntries" by (simp add: maxEntries_def)
  show ?thesis
    by (simp add: log_def mk_entry_def Let_def slice_from_neg_last [OF pos])
qed

text \<open>
  C9. After a call of \<open>log\<close>, or of one of \<open>info\<close>, \<open>warn\<close>, \<open>error\<close> and \<open>success\<close>, the
  service holds at most \<open>maxEntries\<close> = 100 entries. They are the old entries followed
  by the new one, cut at the front to the last 100: the most recent entries, in the
  order in which they were appended.
\<close>

theorem log_keeps_latest:
  "length (entries (fst (log s lv cmpt msg d now trace))) \<le> maxEntries
   \<and> maxEntries = 100
   \<and> entries (fst (log s lv cmpt msg d now trace)) =
       drop (Suc (length (entries s)) - maxEntries)
            (entries s @ [mk_entry lv cmpt msg d now trace])
   \<and> suffix (entries (fst (log s lv cmpt msg d now trace)))
            (entries s @ [mk_entry lv cmpt msg d now trace])
   \<and> entries (fst (info s cmpt msg d now trace)) =
       drop (Suc (length (entries s)) - maxEntries)
            (entries s @ [mk_entry Info cmpt msg d now trace])
   \<and> entries (fst (warn s cmpt msg d now trace)) =
       drop (Suc (length (entries s)) - maxEntries)
            (entries s @ [mk_entry Warn cmpt msg d now trace])
   \<and> entries (fst (error s cmpt msg d now trace)) =
       drop (Suc (length (entries s)) - maxEntries)
            (entries s @ [mk_entry Error cmpt msg d now trace])
   \<and> entries (fst (success s cmpt msg d now trace)) =
       drop (Suc (length (entries s)) - maxEntries)
            (entries s @ [mk_entry Success cmpt msg d now trace])
   \<and> length (entries (fst (info s cmpt msg d now trace))) \<le> maxEntries
   \<and> length (entries (fst (warn s cmpt msg d now trace))) \<le> maxEntries
   \<and> length (entries (fst (error s cmpt msg d now trace))) \<le> maxEntries
   \<and> length (entries (fst (success s cmpt msg d now trace))) \<le> maxEntries"
proof -
  have len: "length (entries (fst (log s l c m x n t))) \<le> maxEntries" for l c m x n t
    unfolding log_entries by (simp add: maxEntries_def)
  have suf: "suffix (entries (fst (log s lv cmpt msg d now trace)))
               (entries s @ [mk_entry lv cmpt msg d now trace])"
    unfolding log_entries by (rule suffix_drop)
  have m: "maxEntries = 100" by (simp add: maxEntries_def)
  show ?thesis
    unfolding info_def warn_def error_def success_def
    using len suf m log_entries by blast
qed

subsection \<open>Toggling a permission\<close>

text \<open>
  C10. On a list of selected permissions without duplicates, toggling the same id twice
  gives a list with the elements of the original, and the list stays without
  duplicates. Toggling an id that is not in the list appends it, once; toggling an id
  that is in the list removes every occurrence of it and keeps the rest in order.
  \<open>togglePermission\<close> applies this to the selected permissions of the component.
\<close>

theorem toggle_involution:
  assumes "distinct xs"
  shows "set (toggle p (toggle p xs)) = set xs
       \<and> distinct (toggle p xs)
       \<and> (p \<notin> set xs \<longrightarrow> toggle p xs = xs @ [p] \<and> count_list (toggle p xs) p = 1)
       \<and> (p \<in> set xs \<longrightarrow> p \<notin> set (toggle p xs) \<and> toggle p xs = filter (\<lambda>q. q \<noteq> p) xs)
       \<and> selectedPermissions (togglePermission p st) = toggle p (selectedPermissions st)
       \<and> selectedPermissions (togglePermission p (togglePermission p st)) =
           toggle p (toggle p (selectedPermissions st))"
  using assms
  by (auto simp: toggle_def togglePermission_def addDebugLog_def count_list_0_iff)

theorem toggle_involution_witness:
  "distinct [lit ''storage'', lit ''tabs'']
   \<and> lit ''tabs'' \<in> set [lit ''storage'', lit ''tabs'']
   \<and> lit ''alarms'' \<notin> set [lit ''storage'', lit ''tabs'']
   \<and> toggle (lit ''tabs'') [lit ''storage'', lit ''tabs''] = [lit ''storage'']
   \<and> toggle (lit ''alarms'') [lit ''storage'', lit ''tabs''] =
       [lit ''storage'', lit ''tabs'', lit ''alarms'']
   \<and> count_list (toggle (lit ''alarms'') [lit ''storage'', lit ''tabs'']) (lit ''alarms'') = 1
   \<and> set (toggle (lit ''tabs'') (toggle (lit ''tabs'') [lit ''storage'', lit ''tabs''])) =
       set [lit ''storage'', lit ''tabs'']"
proof -
  have d: "distinct [lit ''storage'', lit ''tabs'']" by (simp add: lit_def)
  have i: "lit ''tabs'' \<in> set [lit ''storage'', lit ''tabs'']" by simp
  have n: "lit ''alarms'' \<notin> set [lit ''storage'', lit ''tabs'']" by (simp add: lit_def)
  show ?thesis
    using d i n
      toggle_involution [OF d, of "lit ''tabs''" initial_simple]
      toggle_involution [OF d, of "lit ''alarms''" initial_simple]
    by (simp add: toggle_def lit_def)
qed


subsection \<open>The end of a generation in the components\<close>

lemma simple_generate_final:
  "isGenerating (fst (handleGenerateExtension_simple cb tok f k st)) = False
   \<and> step (fst (handleGenerateExtension_simple cb tok f k st)) = 3
   \<and> generatedExtension (fst (handleGenerateExtension_simple cb tok f k st)) \<noteq> None"
  by (simp add: handleGenerateExtension_simple_def Let_def addDebugLog_def
        split: fetch_result.split sum.split option.split)

lemma simple_generate_result_card:
  "\<exists>d. generatedExtension (fst (handleGenerateExtension_simple cb tok f k st)) = Some d
     \<and> render_simple (fst (handleGenerateExtension_simple cb tok f k st)) =
         (if truthy (ext_error d) then FailureCard (interp (ext_error d)) else SuccessCard d)"
  using simple_generate_final [of cb tok f k st]
  by (auto simp: render_simple_def)

lemma creator_generate_rejected:
  "fst (handleGenerateExtension_creator cb (\<lambda>r. Rejected e) k st) =
     st\<lparr>isGenerating := False, generationProgress := (progress_tick ^^ k) 0\<rparr>"
  by (simp add: handleGenerateExtension_creator_def Let_def)

lemma creator_generate_accepted:
  "f (generate_request_creator st) = Responded r \<Longrightarrow> body_json r = Inr d \<Longrightarrow>
   fst (handleGenerateExtension_creator None f k st) =
     st\<lparr>isGenerating := False, generationProgress := 100, generatedExtension := Some d,
        step := 3\<rparr>"
  by (simp add: handleGenerateExtension_creator_def Let_def)

lemma simple_generate_accepted:
  "f (generate_request_simple tok st) = Responded r \<Longrightarrow> ok r \<Longrightarrow> body_json r = Inr d \<Longrightarrow>
   generatedExtension (fst (handleGenerateExtension_simple None tok f k st)) = Some d
   \<and> step (fst (handleGenerateExtension_simple None tok f k st)) = 3
   \<and> isGenerating (fst (handleGenerateExtension_simple None tok f k st)) = False"
  by (simp add: handleGenerateExtension_simple_def Let_def addDebugLog_def)

text \<open>
  C5. The claim is that a run of \<open>handleGenerateExtension\<close> ends, in both components,
  with the spinner off and a success or a failure screen on display. Evaluated where
  \<open>fetch\<close> rejects (the server cannot be reached), from the second step with the type
  \<open>popup\<close> chosen: \<open>ChromeExtensionCreator\<close> turns the spinner off, stores no result
  and stays on the configuration card, and it shows the success card for data that say
  \<open>failed\<close>; \<open>SimpleExtensionCreator\<close> shows the failure card with the reason.
\<close>

theorem creator_generate_failure_no_result:
  "spinner (fst (handleGenerateExtension_creator None
       (\<lambda>r. Rejected (ErrorObj (lit ''Failed to fetch''))) 0
       (initial_creator\<lparr>step := 2, prompt := lit ''timer'', selectedType := lit ''popup''\<rparr>)))
     = False
   \<and> generatedExtension (fst (handleGenerateExtension_creator None
       (\<lambda>r. Rejected (ErrorObj (lit ''Failed to fetch''))) 0
       (initial_creator\<lparr>step := 2, prompt := lit ''timer'', selectedType := lit ''popup''\<rparr>)))
     = None
   \<and> render_creator (fst (handleGenerateExtension_creator None
       (\<lambda>r. Rejected (ErrorObj (lit ''Failed to fetch''))) 0
       (initial_creator\<lparr>step := 2, prompt := lit ''timer'', selectedType := lit ''popup''\<rparr>)))
     = ConfigureCard
   \<and> render_creator (fst (handleGenerateExtension_creator None
       (\<lambda>r. Responded \<lparr>status = 200, statusText = lit ''OK'', body_text = [],
                        body_json = Inr (failed_extension (lit ''TemplateMissing''))\<rparr>) 0
       (initial_creator\<lparr>step := 2, prompt := lit ''timer'', selectedType := lit ''popup''\<rparr>)))
     = SuccessCard (failed_extension (lit ''TemplateMissing''))
   \<and> render_simple (fst (handleGenerateExtension_simple None None
       (\<lambda>r. Rejected (ErrorObj (lit ''Failed to fetch''))) 0
       (initial_simple\<lparr>step := 2, prompt := lit ''timer'', selectedType := lit ''popup''\<rparr>)))
     = FailureCard (lit ''Failed to fetch'')"
  by (simp add: creator_generate_rejected spinner_def render_creator_def initial_creator_def
        handleGenerateExtension_creator_def handleGenerateExtension_simple_def Let_def
        addDebugLog_def render_simple_def initial_simple_def failed_extension_def lit_def)

subsection \<open>The service of the specification\<close>

lemma generate_accepted:
  assumes "validate catalog req = Inr a0"
  shows "\<exists>a. generate catalog templates packager i req = Inr a
       \<and> ga_archetype a = a0 \<and> ga_permissions a = gr_permissions req
       \<and> (ga_state a = Complete \<or> ga_state a = Failed)
       \<and> (ga_state a = Failed \<longleftrightarrow> ga_error a \<noteq> None)
       \<and> (ga_state a = Complete \<longleftrightarrow> ga_handle a \<noteq> None)
       \<and> (ga_state a = Complete \<longrightarrow> ga_manifest a \<noteq> None)"
  using assms
  by (auto simp: generate_def Let_def build_def split: option.split sum.split)

lemma generate_manifest:
  assumes "generate catalog templates packager i req = Inr a" and "ga_manifest a = Some m"
  shows "m_permissions m = gr_permissions req \<and> ga_permissions a = gr_permissions req"
  using assms
  by (auto simp: generate_def Let_def build_def assemble_manifest_def
        split: option.splits sum.splits if_splits)

lemma generate_complete_manifest:
  assumes "generate catalog templates packager i req = Inr a" and "ga_state a = Complete"
  shows "ga_manifest a \<noteq> None"
  using assms
  by (auto simp: generate_def Let_def build_def split: option.splits sum.splits if_splits)

lemma generate_missing_configuration:
  assumes "validate catalog req = Inr ContentScript" and "gr_target_websites req = []"
  shows "generate catalog templates packager i req =
     Inr \<lparr>ga_id = i, ga_user_id = gr_user_id req, ga_archetype = ContentScript,
          ga_permissions = gr_permissions req, ga_files = [], ga_manifest = None,
          ga_state = Failed, ga_handle = None, ga_error = Some MissingConfiguration\<rparr>"
  using assms by (simp add: generate_def Let_def build_def)

lemma analyze_blank: "trim p = [] \<Longrightarrow> analyze provider rank dt p = Inl InvalidInput"
  by (simp add: analyze_def)

lemma error_text_nonempty: "error_text e \<noteq> []"
  by (cases e) (simp_all add: lit_def)

lemma validate_error: "validate catalog req = Inl e \<Longrightarrow> e = InvalidInput"
  by (auto simp: validate_def split: option.splits if_splits)

lemma validate_archetype: "validate catalog req = Inr a \<Longrightarrow> archetype_of (gr_extension_type req) = Some a"
  by (auto simp: validate_def split: option.splits if_splits)

lemma request_shape_validate: "request_shape catalog req = Inr a \<Longrightarrow> validate catalog req = Inr a"
  by (auto simp: request_shape_def split: sum.splits if_splits)

lemma post_generate_shaped:
  "request_shape catalog req = Inr a0 \<Longrightarrow> generate catalog templates packager i req = Inr a \<Longrightarrow>
   post_generate catalog templates packager i req = (200, Some a)"
  by (simp add: post_generate_def)

text \<open>
  C6. For a prompt that is empty after trimming, the analyzer of the specification
  gives no result and fails with \<open>InvalidInput\<close>, a 400 at the HTTP boundary. In the
  UI the analyze button is disabled for such a prompt, and \<open>handleAnalyzePrompt\<close>
  returns without a request: \<open>ChromeExtensionCreator\<close> leaves its state as it was, and
  \<open>SimpleExtensionCreator\<close> only adds a line to its debug log and leaves the analysis
  as it was.
\<close>

theorem blank_prompt_rejected:
  assumes "trim p = []"
  shows "analyze provider rank dt p = Inl InvalidInput
       \<and> analyze_status (analyze provider rank dt p) = 400
       \<and> analyze_disabled (st\<lparr>prompt := p\<rparr>)
       \<and> handleAnalyzePrompt_creator f (st\<lparr>prompt := p\<rparr>) = (st\<lparr>prompt := p\<rparr>, [])
       \<and> handleAnalyzePrompt_simple tok f' (st'\<lparr>prompt := p\<rparr>) =
           (addDebugLog (lit ''No prompt provided'') LError (st'\<lparr>prompt := p\<rparr>), [])
       \<and> analysis (fst (handleAnalyzePrompt_simple tok f' (st'\<lparr>prompt := p\<rparr>))) = analysis st'"
  using assms
  by (simp add: analyze_blank analyze_status_def analyze_disabled_def
        handleAnalyzePrompt_creator_def handleAnalyzePrompt_simple_def addDebugLog_def)

theorem blank_prompt_rejected_witness:
  "trim [32, 9, 12288] = []
   \<and> analyze (\<lambda>p. None) (\<lambda>p. []) (lit ''15-30 min'') [32, 9, 12288] = Inl InvalidInput
   \<and> handleAnalyzePrompt_creator (\<lambda>r. Rejected NonError)
       (initial_creator\<lparr>prompt := [32, 9, 12288]\<rparr>) =
       (initial_creator\<lparr>prompt := [32, 9, 12288]\<rparr>, [])
   \<and> snd (handleAnalyzePrompt_simple None (\<lambda>r. Rejected NonError)
       (initial_simple\<lparr>prompt := [32, 9, 12288]\<rparr>)) = []"
proof -
  have b: "trim [32, 9, 12288] = []" by (simp add: trim_def is_ws_def)
  show ?thesis
    using b blank_prompt_rejected [OF b, of "\<lambda>p. None" "\<lambda>p. []" "lit ''15-30 min''"
        initial_creator "\<lambda>r. Rejected NonError" None "\<lambda>r. Rejected NonError" initial_simple]
    by simp
qed


text \<open>
  C2. In the template \<open>popup_timer.json\<close> the permissions of the manifest are the
  permissions the template declares at its top level, as lists and so as sets. For an
  artifact of the service of the specification, a complete artifact has a manifest, and
  the permissions of a manifest are, as a set, the permissions of the artifact and of the
  request.
\<close>

theorem manifest_permissions_match:
  assumes "generate catalog templates packager i req = Inr a"
  shows "mf_permissions (t_manifest popup_timer) = t_permissions popup_timer
       \<and> set (mf_permissions (t_manifest popup_timer)) = set (t_permissions popup_timer)
       \<and> (ga_state a = Complete \<longrightarrow> ga_manifest a \<noteq> None)
       \<and> (\<forall>m. ga_manifest a = Some m \<longrightarrow>
             set (m_permissions m) = set (ga_permissions a)
             \<and> set (m_permissions m) = set (gr_permissions req))"
proof -
  have t: "mf_permissions (t_manifest popup_timer) = t_permissions popup_timer"
    by (simp add: popup_timer_def)
  have c: "ga_state a = Complete \<longrightarrow> ga_manifest a \<noteq> None"
    using generate_complete_manifest [OF assms] by blast
  have m: "\<forall>m. ga_manifest a = Some m \<longrightarrow>
             set (m_permissions m) = set (ga_permissions a)
             \<and> set (m_permissions m) = set (gr_permissions req)"
    using generate_manifest [OF assms] by simp
  have t2: "set (mf_permissions (t_manifest popup_timer)) = set (t_permissions popup_timer)"
    using t by simp
  show ?thesis by (intro conjI t t2 c m)
qed

theorem manifest_permissions_match_witness:
  "generate [lit ''storage'', lit ''notifications'', lit ''alarms'']
     (\<lambda>a. if a = Popup then Some [(lit ''popup.html'', lit ''<html></html>'')] else None)
     (\<lambda>i files m. Some (lit ''archive-1'')) 1
     \<lparr>gr_prompt = lit ''pomodoro timer'', gr_extension_type = lit ''popup'',
      gr_permissions = [lit ''storage'', lit ''notifications'', lit ''alarms''],
      gr_target_websites = [], gr_user_id = 7\<rparr>
   = Inr \<lparr>ga_id = 1, ga_user_id = 7, ga_archetype = Popup,
          ga_permissions = [lit ''storage'', lit ''notifications'', lit ''alarms''],
          ga_files = [(lit ''popup.html'', lit ''<html></html>'')],
          ga_manifest = Some \<lparr>m_archetype = Popup,
                               m_permissions = [lit ''storage'', lit ''notifications'', lit ''alarms''],
                               m_host_permissions = []\<rparr>,
          ga_state = Complete, ga_handle = Some (lit ''archive-1''), ga_error = None\<rparr>
   \<and> set (m_permissions \<lparr>m_archetype = Popup,
                           m_permissions = [lit ''storage'', lit ''notifications'', lit ''alarms''],
                           m_host_permissions = []\<rparr>)
       = set [lit ''storage'', lit ''notifications'', lit ''alarms'']
   \<and> set (mf_permissions (t_manifest popup_timer)) = set (t_permissions popup_timer)"
proof -
  have g: "generate [lit ''storage'', lit ''notifications'', lit ''alarms'']
     (\<lambda>a. if a = Popup then Some [(lit ''popup.html'', lit ''<html></html>'')] else None)
     (\<lambda>i files m. Some (lit ''archive-1'')) 1
     \<lparr>gr_prompt = lit ''pomodoro timer'', gr_extension_type = lit ''popup'',
      gr_permissions = [lit ''storage'', lit ''notifications'', lit ''alarms''],
      gr_target_websites = [], gr_user_id = 7\<rparr>
   = Inr \<lparr>ga_id = 1, ga_user_id = 7, ga_archetype = Popup,
          ga_permissions = [lit ''storage'', lit ''notifications'', lit ''alarms''],
          ga_files = [(lit ''popup.html'', lit ''<html></html>'')],
          ga_manifest = Some \<lparr>m_archetype = Popup,
                               m_permissions = [lit ''storage'', lit ''notifications'', lit ''alarms''],
                               m_host_permissions = []\<rparr>,
          ga_state = Complete, ga_handle = Some (lit ''archive-1''), ga_error = None\<rparr>"
    by (simp add: generate_def validate_def archetype_of_def build_def assemble_manifest_def
          Let_def lit_def)
  show ?thesis
    using g manifest_permissions_match [OF g] by simp
qed

text \<open>
  C3. The claim is that every generate call for a content script without target
  websites yields a \<open>Failed\<close> result with \<open>MissingConfiguration\<close>, and that the UI
  therefore must not treat the target websites as optional. Evaluated twice. In the
  service of the specification, such a call with a permission that is not in the catalog
  is rejected with \<open>InvalidInput\<close> and yields no result at all. In the UI, with the
  type \<open>content_script\<close> chosen and the target-websites input empty, both components
  label the input as optional, enable the generate button, and send on a click the
  generate request with \<open>target_websites\<close> empty.
\<close>

theorem content_script_targets_optional_counterexample:
  "generate [lit ''storage'']
      (\<lambda>a. Some [(lit ''content.js'', lit ''// script'')])
      (\<lambda>i files m. Some (lit ''archive-1'')) 1
      \<lparr>gr_prompt = lit ''block ads'', gr_extension_type = lit ''content_script'',
       gr_permissions = [lit ''bogus''], gr_target_websites = [], gr_user_id = 7\<rparr>
     = Inl InvalidInput
   \<and> generate_disabled (initial_creator\<lparr>step := 2, prompt := lit ''block ads'',
        selectedType := lit ''content_script''\<rparr>) = False
   \<and> target_websites_label (initial_creator\<lparr>step := 2, prompt := lit ''block ads'',
        selectedType := lit ''content_script''\<rparr>) = Some (lit ''Target Websites (optional)'')
   \<and> snd (click_generate_creator None (\<lambda>r. Rejected NonError) 0
        (initial_creator\<lparr>step := 2, prompt := lit ''block ads'',
           selectedType := lit ''content_script''\<rparr>)) =
       [\<lparr>req_url = lit ''/api/chrome-extension/generate'', req_method = POST,
         req_headers = [(lit ''Content-Type'', lit ''application/json'')],
         req_body = Some (JObj [(lit ''prompt'', JStr (lit ''block ads'')),
                                (lit ''extension_type'', JStr (lit ''content_script'')),
                                (lit ''permissions'', JArr []),
                                (lit ''target_websites'', JArr [])])\<rparr>]
   \<and> snd (click_generate_simple None None (\<lambda>r. Rejected NonError) 0
        (initial_simple\<lparr>step := 2, prompt := lit ''block ads'',
           selectedType := lit ''content_script''\<rparr>)) =
       [\<lparr>req_url = lit ''/api/chrome-extension/generate'', req_method = POST,
         req_headers = [(lit ''Content-Type'', lit ''application/json'')],
         req_body = Some (JObj [(lit ''prompt'', JStr (lit ''block ads'')),
                                (lit ''extension_type'', JStr (lit ''content_script'')),
                                (lit ''permissions'', JArr []),
                                (lit ''target_websites'', JArr [])])\<rparr>]"
  by (simp add: generate_def validate_def archetype_of_def
        generate_disabled_def target_websites_label_def click_generate_creator_def
        click_generate_simple_def snd_generate_creator snd_generate_simple
        generate_request_creator_def generate_request_simple_def generate_body_def
        headers_simple_def parse_target_websites_def trim_def
        initial_creator_def initial_simple_def lit_def)

text \<open>
  C3, as amended. In the service of the specification, a generate call whose archetype
  is a content script and whose list of target websites is empty never produces a
  manifest: validation rejects it with \<open>InvalidInput\<close> before any artifact exists, or
  the call yields a \<open>Failed\<close> artifact with the error \<open>MissingConfiguration\<close>, without
  manifest and without archive; at the HTTP boundary the request is answered with 400
  and no artifact. In the UI the target websites are optional: with the type
  \<open>content_script\<close> chosen and no generation running, the generate button of either
  component is enabled whatever the target-websites input holds, the input is labelled
  as optional, a click sends the generate request, and an input of white space only
  gives an empty list.
\<close>

theorem content_script_targets_amended:
  "(archetype_of (gr_extension_type req) = Some ContentScript \<and> gr_target_websites req = [] \<longrightarrow>
      generate catalog templates packager i req =
        (case validate catalog req of
           Inl e \<Rightarrow> Inl InvalidInput
         | Inr a \<Rightarrow>
             Inr \<lparr>ga_id = i, ga_user_id = gr_user_id req, ga_archetype = ContentScript,
                  ga_permissions = gr_permissions req, ga_files = [], ga_manifest = None,
                  ga_state = Failed, ga_handle = None,
                  ga_error = Some MissingConfiguration\<rparr>)
      \<and> (\<forall>a. generate catalog templates packager i req = Inr a \<longrightarrow>
             ga_state a = Failed \<and> ga_error a = Some MissingConfiguration
             \<and> ga_manifest a = None \<and> ga_handle a = None)
      \<and> post_generate catalog templates packager i req = (400, None))
   \<and> (selectedType st = lit ''content_script'' \<and> \<not> isGenerating st \<longrightarrow>
        \<not> generate_disabled st
        \<and> target_websites_label st = Some (lit ''Target Websites (optional)'')
        \<and> snd (click_generate_creator cb f k st) = [generate_request_creator st]
        \<and> req_body (generate_request_creator st) = Some (generate_body st))
   \<and> (selectedType st' = lit ''content_script'' \<and> \<not> isGenerating st' \<longrightarrow>
        \<not> generate_disabled st'
        \<and> target_websites_label st' = Some (lit ''Target Websites (optional)'')
        \<and> snd (click_generate_simple cb' tok f' k' st') = [generate_request_simple tok st']
        \<and> req_body (generate_request_simple tok st') = Some (generate_body st'))
   \<and> (list_all is_ws raw \<longrightarrow> parse_target_websites raw = [])"
proof -
  have ne: "lit ''content_script'' \<noteq> []" by (simp add: lit_def)
  have 1: "archetype_of (gr_extension_type req) = Some ContentScript \<and> gr_target_websites req = [] \<longrightarrow>
      generate catalog templates packager i req =
        (case validate catalog req of
           Inl e \<Rightarrow> Inl InvalidInput
         | Inr a \<Rightarrow>
             Inr \<lparr>ga_id = i, ga_user_id = gr_user_id req, ga_archetype = ContentScript,
                  ga_permissions = gr_permissions req, ga_files = [], ga_manifest = None,
                  ga_state = Failed, ga_handle = None,
                  ga_error = Some MissingConfiguration\<rparr>)
      \<and> (\<forall>a. generate catalog templates packager i req = Inr a \<longrightarrow>
             ga_state a = Failed \<and> ga_error a = Some MissingConfiguration
             \<and> ga_manifest a = None \<and> ga_handle a = None)
      \<and> post_generate catalog templates packager i req = (400, None)"
  proof
    assume h: "archetype_of (gr_extension_type req) = Some ContentScript \<and> gr_target_websites req = []"
    show "generate catalog templates packager i req =
        (case validate catalog req of
           Inl e \<Rightarrow> Inl InvalidInput
         | Inr a \<Rightarrow>
             Inr \<lparr>ga_id = i, ga_user_id = gr_user_id req, ga_archetype = ContentScript,
                  ga_permissions = gr_permissions req, ga_files = [], ga_manifest = None,
                  ga_state = Failed, ga_handle = None,
                  ga_error = Some MissingConfiguration\<rparr>)
      \<and> (\<forall>a. generate catalog templates packager i req = Inr a \<longrightarrow>
             ga_state a = Failed \<and> ga_error a = Some MissingConfiguration
             \<and> ga_manifest a = None \<and> ga_handle a = None)
      \<and> post_generate catalog templates packager i req = (400, None)"
    proof (cases "validate catalog req")
      case (Inl e)
      then have "e = InvalidInput" by (rule validate_error)
      then show ?thesis using Inl
        by (simp add: generate_def post_generate_def request_shape_def)
    next
      case (Inr a)
      then have "a = ContentScript" using h validate_archetype [OF Inr] by simp
      then have v: "validate catalog req = Inr ContentScript" using Inr by simp
      show ?thesis
        using h by (simp add: v generate_missing_configuration [OF v] post_generate_def
            request_shape_def)
    qed
  qed
  have 2: "selectedType st = lit ''content_script'' \<and> \<not> isGenerating st \<longrightarrow>
        \<not> generate_disabled st
        \<and> target_websites_label st = Some (lit ''Target Websites (optional)'')
        \<and> snd (click_generate_creator cb f k st) = [generate_request_creator st]
        \<and> req_body (generate_request_creator st) = Some (generate_body st)"
    using ne by (auto simp: generate_disabled_def target_websites_label_def
        click_generate_creator_def snd_generate_creator generate_request_creator_def)
  have 3: "selectedType st' = lit ''content_script'' \<and> \<not> isGenerating st' \<longrightarrow>
        \<not> generate_disabled st'
        \<and> target_websites_label st' = Some (lit ''Target Websites (optional)'')
        \<and> snd (click_generate_simple cb' tok f' k' st') = [generate_request_simple tok st']
        \<and> req_body (generate_request_simple tok st') = Some (generate_body st')"
    using ne by (auto simp: generate_disabled_def target_websites_label_def
        click_generate_simple_def snd_generate_simple generate_request_simple_def)
  have 4: "list_all is_ws raw \<longrightarrow> parse_target_websites raw = []"
  proof
    assume b: "list_all is_ws raw"
    have "list_all is_ws w" if "w \<in> set (split_on 44 raw)" for w
      using that b
    proof (induction raw arbitrary: w)
      case Nil then show ?case by simp
    next
      case (Cons c cs)
      then show ?case by (auto split: if_splits list.splits)
    qed
    then have "\<forall>w \<in> set (split_on 44 raw). trim w = []" by (simp add: trim_nil_iff)
    then show "parse_target_websites raw = []"
      by (auto simp: parse_target_websites_def filter_empty_conv)
  qed
  show ?thesis by (intro conjI 1 2 3 4)
qed

theorem content_script_targets_amended_witness:
  "archetype_of (gr_extension_type
      \<lparr>gr_prompt = lit ''block ads'', gr_extension_type = lit ''content_script'',
       gr_permissions = [lit ''storage''], gr_target_websites = [], gr_user_id = 7\<rparr>)
     = Some ContentScript
   \<and> generate [lit ''storage'', lit ''activeTab'']
        (\<lambda>a. Some [(lit ''content.js'', lit ''// script'')])
        (\<lambda>i files m. Some (lit ''archive-1'')) 1
        \<lparr>gr_prompt = lit ''block ads'', gr_extension_type = lit ''content_script'',
         gr_permissions = [lit ''storage''], gr_target_websites = [], gr_user_id = 7\<rparr>
     = Inr \<lparr>ga_id = 1, ga_user_id = 7, ga_archetype = ContentScript,
            ga_permissions = [lit ''storage''], ga_files = [], ga_manifest = None,
            ga_state = Failed, ga_handle = None, ga_error = Some MissingConfiguration\<rparr>
   \<and> post_generate [lit ''storage'', lit ''activeTab'']
        (\<lambda>a. Some [(lit ''content.js'', lit ''// script'')])
        (\<lambda>i files m. Some (lit ''archive-1'')) 1
        \<lparr>gr_prompt = lit ''block ads'', gr_extension_type = lit ''content_script'',
         gr_permissions = [lit ''storage''], gr_target_websites = [], gr_user_id = 7\<rparr>
     = (400, None)
   \<and> generate [lit ''storage'', lit ''activeTab'']
        (\<lambda>a. Some [(lit ''content.js'', lit ''// script'')])
        (\<lambda>i files m. Some (lit ''archive-1'')) 1
        \<lparr>gr_prompt = lit ''block ads'', gr_extension_type = lit ''content_script'',
         gr_permissions = [lit ''bogus''], gr_target_websites = [], gr_user_id = 7\<rparr>
     = Inl InvalidInput
   \<and> generate_disabled (initial_creator\<lparr>step := 2, selectedType := lit ''content_script'',
         targetWebsites := lit ''  ''\<rparr>) = False
   \<and> generate_disabled (initial_simple\<lparr>step := 2, selectedType := lit ''content_script'',
         targetWebsites := lit ''  ''\<rparr>) = False
   \<and> list_all is_ws (lit ''  '')
   \<and> parse_target_websites (lit ''  '') = []"
proof -
  let ?cat = "[lit ''storage'', lit ''activeTab'']"
  let ?req = "\<lparr>gr_prompt = lit ''block ads'', gr_extension_type = lit ''content_script'',
       gr_permissions = [lit ''storage''], gr_target_websites = [], gr_user_id = 7\<rparr>"
  let ?bad = "\<lparr>gr_prompt = lit ''block ads'', gr_extension_type = lit ''content_script'',
       gr_permissions = [lit ''bogus''], gr_target_websites = [], gr_user_id = 7\<rparr>"
  let ?tpl = "\<lambda>a::archetype. Some [(lit ''content.js'', lit ''// script'')]"
  let ?pkg = "\<lambda>(i::nat) (files::FileSet) (m::Manifest). Some (lit ''archive-1'')"
  let ?st = "initial_creator\<lparr>step := 2, selectedType := lit ''content_script'',
         targetWebsites := lit ''  ''\<rparr>"
  let ?st' = "initial_simple\<lparr>step := 2, selectedType := lit ''content_script'',
         targetWebsites := lit ''  ''\<rparr>"
  have a: "archetype_of (gr_extension_type ?req) = Some ContentScript \<and> gr_target_websites ?req = []"
    by (simp add: archetype_of_def lit_def)
  have a': "archetype_of (gr_extension_type ?bad) = Some ContentScript \<and> gr_target_websites ?bad = []"
    by (simp add: archetype_of_def lit_def)
  have v: "validate ?cat ?req = Inr ContentScript"
    by (simp add: validate_def archetype_of_def lit_def)
  have v': "validate ?cat ?bad = Inl InvalidInput"
    by (simp add: validate_def archetype_of_def lit_def)
  have s: "selectedType ?st = lit ''content_script'' \<and> \<not> isGenerating ?st"
    by (simp add: initial_creator_def)
  have s': "selectedType ?st' = lit ''content_script'' \<and> \<not> isGenerating ?st'"
    by (simp add: initial_simple_def)
  have w: "list_all is_ws (lit ''  '')" by (simp add: lit_def is_ws_def)
  note inst = content_script_targets_amended [of ?req ?cat ?tpl ?pkg 1
      ?st None "\<lambda>r. Rejected NonError" 0 ?st' None None "\<lambda>r. Rejected NonError" 0 "lit ''  ''"]
  note inst' = content_script_targets_amended [of ?bad ?cat ?tpl ?pkg 1
      ?st None "\<lambda>r. Rejected NonError" 0 ?st' None None "\<lambda>r. Rejected NonError" 0 "lit ''  ''"]
  have g: "generate ?cat ?tpl ?pkg 1 ?req =
      Inr \<lparr>ga_id = 1, ga_user_id = 7, ga_archetype = ContentScript,
            ga_permissions = [lit ''storage''], ga_files = [], ga_manifest = None,
            ga_state = Failed, ga_handle = None, ga_error = Some MissingConfiguration\<rparr>"
    using inst a by (simp add: v)
  have p: "post_generate ?cat ?tpl ?pkg 1 ?req = (400, None)"
    using inst a by blast
  have g': "generate ?cat ?tpl ?pkg 1 ?bad = Inl InvalidInput"
    using inst' a' by (simp add: v')
  have d: "\<not> generate_disabled ?st" using inst s by blast
  have d': "\<not> generate_disabled ?st'" using inst s' by blast
  have e: "parse_target_websites (lit ''  '') = []" using inst w by blast
  show ?thesis using a g p g' d d' w e by simp
qed

text \<open>
  C4. For a request that has the shape the boundary asks for, the service of the
  specification returns an artifact with 200; the artifact is complete or failed, and a
  failed one says \<open>failed\<close> and carries a non-empty error and no archive. Given that
  answer with the error of the artifact, \<open>SimpleExtensionCreator\<close> turns the spinner off
  and shows the failure card with the error for a failed artifact and the success card
  otherwise; \<open>ChromeExtensionCreator\<close> turns the spinner off and shows its result card.

  Whatever \<open>fetch\<close> and the callback do, \<open>handleGenerateExtension\<close> of
  \<open>SimpleExtensionCreator\<close> throws nothing past its caller: it ends with the spinner
  off, on the third step, with a record to render. When \<open>fetch\<close> rejects, when the
  body is not JSON and when the callback throws, the record is the one of the \<open>catch\<close>
  clause, with the status \<open>failed\<close> and the message of what was thrown as its error,
  and the failure card shows that message unless it is empty. On an answer that is not
  2xx the record carries "Extension generation failed:" with the status line, on the
  failure card. Otherwise the record is the data of the answer.
\<close>

theorem generation_failure_is_returned:
  assumes "request_shape catalog req = Inr a0"
  shows "(\<exists>a. generate catalog templates packager i req = Inr a
       \<and> post_generate catalog templates packager i req = (200, Some a)
       \<and> (ga_state a = Complete \<or> ga_state a = Failed)
       \<and> (ga_state a = Failed \<longrightarrow>
            summary_status a = lit ''failed'' \<and> truthy (summary_error a) \<and> ga_handle a = None)
       \<and> (ga_state a = Complete \<longrightarrow> summary_error a = None)
       \<and> (\<forall>g r d t n s.
            g (generate_request_simple t s) = Responded r
            \<and> status r = fst (post_generate catalog templates packager i req)
            \<and> body_json r = Inr d \<and> ext_error d = summary_error a \<longrightarrow>
              spinner (fst (handleGenerateExtension_simple None t g n s)) = False
              \<and> render_simple (fst (handleGenerateExtension_simple None t g n s)) =
                  (if ga_state a = Failed then FailureCard (interp (summary_error a))
                   else SuccessCard d))
       \<and> (\<forall>g r d n s.
            g (generate_request_creator s) = Responded r \<and> body_json r = Inr d \<longrightarrow>
              spinner (fst (handleGenerateExtension_creator None g n s)) = False
              \<and> render_creator (fst (handleGenerateExtension_creator None g n s)) =
                  SuccessCard d))
   \<and> spinner (fst (handleGenerateExtension_simple cb tok f k st)) = False
   \<and> step (fst (handleGenerateExtension_simple cb tok f k st)) = 3
   \<and> (\<exists>d. generatedExtension (fst (handleGenerateExtension_simple cb tok f k st)) = Some d
          \<and> render_simple (fst (handleGenerateExtension_simple cb tok f k st)) =
              (if truthy (ext_error d) then FailureCard (interp (ext_error d))
               else SuccessCard d))
   \<and> (f (generate_request_simple tok st) = Rejected e \<longrightarrow>
        generatedExtension (fst (handleGenerateExtension_simple cb tok f k st)) =
          Some (failed_extension
                  (error_message (lit ''Extension generation failed. Please try again.'') e))
        \<and> render_simple (fst (handleGenerateExtension_simple cb tok f k st)) =
            (if error_message (lit ''Extension generation failed. Please try again.'') e \<noteq> []
             then FailureCard
                    (error_message (lit ''Extension generation failed. Please try again.'') e)
             else SuccessCard
                    (failed_extension
                       (error_message (lit ''Extension generation failed. Please try again.'') e))))
   \<and> (f (generate_request_simple tok st) = Responded r \<and> \<not> ok r \<longrightarrow>
        generatedExtension (fst (handleGenerateExtension_simple cb tok f k st)) =
          Some (failed_extension
                  (lit ''Extension generation failed: '' @ show_nat (status r) @ lit '' ''
                     @ statusText r))
        \<and> render_simple (fst (handleGenerateExtension_simple cb tok f k st)) =
            FailureCard (lit ''Extension generation failed: '' @ show_nat (status r) @ lit '' ''
                           @ statusText r))
   \<and> (f (generate_request_simple tok st) = Responded r \<and> ok r \<and> body_json r = Inl e \<longrightarrow>
        generatedExtension (fst (handleGenerateExtension_simple cb tok f k st)) =
          Some (failed_extension
                  (error_message (lit ''Extension generation failed. Please try again.'') e))
        \<and> render_simple (fst (handleGenerateExtension_simple cb tok f k st)) =
            (if error_message (lit ''Extension generation failed. Please try again.'') e \<noteq> []
             then FailureCard
                    (error_message (lit ''Extension generation failed. Please try again.'') e)
             else SuccessCard
                    (failed_extension
                       (error_message (lit ''Extension generation failed. Please try again.'') e))))
   \<and> (f (generate_request_simple tok st) = Responded r \<and> ok r \<and> body_json r = Inr d
        \<and> cb = Some c \<and> c d = Some e \<longrightarrow>
        generatedExtension (fst (handleGenerateExtension_simple cb tok f k st)) =
          Some (failed_extension
                  (error_message (lit ''Extension generation failed. Please try again.'') e))
        \<and> render_simple (fst (handleGenerateExtension_simple cb tok f k st)) =
            (if error_message (lit ''Extension generation failed. Please try again.'') e \<noteq> []
             then FailureCard
                    (error_message (lit ''Extension generation failed. Please try again.'') e)
             else SuccessCard
                    (failed_extension
                       (error_message (lit ''Extension generation failed. Please try again.'') e))))
   \<and> (f (generate_request_simple tok st) = Responded r \<and> ok r \<and> body_json r = Inr d
        \<and> (cb = None \<or> (\<exists>c'. cb = Some c' \<and> c' d = None)) \<longrightarrow>
        generatedExtension (fst (handleGenerateExtension_simple cb tok f k st)) = Some d)
   \<and> ext_status (failed_extension m) = Some (lit ''failed'')
   \<and> ext_error (failed_extension m) = Some m
   \<and> error_message (lit ''Extension generation failed. Please try again.'') NonError \<noteq> []
   \<and> error_message (lit ''Extension generation failed. Please try again.'') (ErrorObj m) = m"
proof -
  let ?H = "handleGenerateExtension_simple cb tok f k st"
  let ?fb = "lit ''Extension generation failed. Please try again.''"
  have v: "validate catalog req = Inr a0" using assms by (rule request_shape_validate)
  from generate_accepted [OF v, of templates packager i]
  obtain a where g: "generate catalog templates packager i req = Inr a"
    and sts: "ga_state a = Complete \<or> ga_state a = Failed"
    and fe: "ga_state a = Failed \<longleftrightarrow> ga_error a \<noteq> None"
    and ch: "ga_state a = Complete \<longleftrightarrow> ga_handle a \<noteq> None"
    by blast
  have pg: "post_generate catalog templates packager i req = (200, Some a)"
    using assms g by (rule post_generate_shaped)
  have failed: "ga_state a = Failed \<longrightarrow>
          summary_status a = lit ''failed'' \<and> truthy (summary_error a) \<and> ga_handle a = None"
    using fe ch by (auto simp: summary_status_def summary_error_def error_text_nonempty)
  have complete: "ga_state a = Complete \<longrightarrow> summary_error a = None"
    using fe by (auto simp: summary_error_def)
  have simple: "spinner (fst (handleGenerateExtension_simple None t g n s)) = False
            \<and> render_simple (fst (handleGenerateExtension_simple None t g n s)) =
                (if ga_state a = Failed then FailureCard (interp (summary_error a))
                 else SuccessCard d)"
    if "g (generate_request_simple t s) = Responded r"
      and "status r = fst (post_generate catalog templates packager i req)"
      and "body_json r = Inr d" and "ext_error d = summary_error a"
    for g r d t n and s :: simple_state
  proof -
    have "ok r" using that(2) pg by (simp add: ok_def)
    then have "generatedExtension (fst (handleGenerateExtension_simple None t g n s)) = Some d
       \<and> step (fst (handleGenerateExtension_simple None t g n s)) = 3
       \<and> isGenerating (fst (handleGenerateExtension_simple None t g n s)) = False"
      using simple_generate_accepted [of g t s r d n] that(1,3) by blast
    then show ?thesis
      using that(4) failed complete sts
      by (auto simp: spinner_def render_simple_def)
  qed
  have creator: "spinner (fst (handleGenerateExtension_creator None g n s)) = False
            \<and> render_creator (fst (handleGenerateExtension_creator None g n s)) = SuccessCard d"
    if "g (generate_request_creator s) = Responded r" and "body_json r = Inr d"
    for g r d n and s :: creator_state
    using that
    by (simp add: creator_generate_accepted [of g s r d n] spinner_def render_creator_def)
  have service: "\<exists>a. generate catalog templates packager i req = Inr a
       \<and> post_generate catalog templates packager i req = (200, Some a)
       \<and> (ga_state a = Complete \<or> ga_state a = Failed)
       \<and> (ga_state a = Failed \<longrightarrow>
            summary_status a = lit ''failed'' \<and> truthy (summary_error a) \<and> ga_handle a = None)
       \<and> (ga_state a = Complete \<longrightarrow> summary_error a = None)
       \<and> (\<forall>g r d t n s.
            g (generate_request_simple t s) = Responded r
            \<and> status r = fst (post_generate catalog templates packager i req)
            \<and> body_json r = Inr d \<and> ext_error d = summary_error a \<longrightarrow>
              spinner (fst (handleGenerateExtension_simple None t g n s)) = False
              \<and> render_simple (fst (handleGenerateExtension_simple None t g n s)) =
                  (if ga_state a = Failed then FailureCard (interp (summary_error a))
                   else SuccessCard d))
       \<and> (\<forall>g r d n s.
            g (generate_request_creator s) = Responded r \<and> body_json r = Inr d \<longrightarrow>
              spinner (fst (handleGenerateExtension_creator None g n s)) = False
              \<and> render_creator (fst (handleGenerateExtension_creator None g n s)) =
                  SuccessCard d)"
    using g pg sts failed complete simple creator by blast
  have fin: "spinner (fst ?H) = False" "step (fst ?H) = 3"
    using simple_generate_final [of cb tok f k st] by (simp_all add: spinner_def)
  have card: "\<exists>d. generatedExtension (fst ?H) = Some d
          \<and> render_simple (fst ?H) =
              (if truthy (ext_error d) then FailureCard (interp (ext_error d))
               else SuccessCard d)"
    by (rule simple_generate_result_card)
  have rej: "f (generate_request_simple tok st) = Rejected e \<longrightarrow>
        generatedExtension (fst ?H) = Some (failed_extension (error_message ?fb e))
        \<and> render_simple (fst ?H) =
            (if error_message ?fb e \<noteq> [] then FailureCard (error_message ?fb e)
             else SuccessCard (failed_extension (error_message ?fb e)))"
    by (simp add: handleGenerateExtension_simple_def Let_def addDebugLog_def
          render_simple_def failed_extension_def)
  have non2xx: "f (generate_request_simple tok st) = Responded r \<and> \<not> ok r \<longrightarrow>
        generatedExtension (fst ?H) =
          Some (failed_extension
                  (lit ''Extension generation failed: '' @ show_nat (status r) @ lit '' ''
                     @ statusText r))
        \<and> render_simple (fst ?H) =
            FailureCard (lit ''Extension generation failed: '' @ show_nat (status r) @ lit '' ''
                           @ statusText r)"
    by (simp add: handleGenerateExtension_simple_def Let_def addDebugLog_def
          render_simple_def failed_extension_def lit_def)
  have unparsable: "f (generate_request_simple tok st) = Responded r \<and> ok r
        \<and> body_json r = Inl e \<longrightarrow>
        generatedExtension (fst ?H) = Some (failed_extension (error_message ?fb e))
        \<and> render_simple (fst ?H) =
            (if error_message ?fb e \<noteq> [] then FailureCard (error_message ?fb e)
             else SuccessCard (failed_extension (error_message ?fb e)))"
    by (simp add: handleGenerateExtension_simple_def Let_def addDebugLog_def
          render_simple_def failed_extension_def)
  have thrown: "f (generate_request_simple tok st) = Responded r \<and> ok r \<and> body_json r = Inr d
        \<and> cb = Some c \<and> c d = Some e \<longrightarrow>
        generatedExtension (fst ?H) = Some (failed_extension (error_message ?fb e))
        \<and> render_simple (fst ?H) =
            (if error_message ?fb e \<noteq> [] then FailureCard (error_message ?fb e)
             else SuccessCard (failed_extension (error_message ?fb e)))"
    by (simp add: handleGenerateExtension_simple_def Let_def addDebugLog_def
          render_simple_def failed_extension_def)
  have good: "f (generate_request_simple tok st) = Responded r \<and> ok r \<and> body_json r = Inr d
        \<and> (cb = None \<or> (\<exists>c'. cb = Some c' \<and> c' d = None)) \<longrightarrow>
        generatedExtension (fst ?H) = Some d"
    by (auto simp: handleGenerateExtension_simple_def Let_def addDebugLog_def)
  have rec: "ext_status (failed_extension m) = Some (lit ''failed'')"
    "ext_error (failed_extension m) = Some m"
    by (simp_all add: failed_extension_def)
  have msg: "error_message ?fb NonError \<noteq> []" "error_message ?fb (ErrorObj m) = m"
    by (simp_all add: lit_def)
  show ?thesis
    by (intro conjI service fin card rej non2xx unparsable thrown good rec msg)
qed

theorem generation_failure_is_returned_witness:
  "request_shape [lit ''storage'']
      \<lparr>gr_prompt = lit ''timer'', gr_extension_type = lit ''popup'',
       gr_permissions = [lit ''storage''], gr_target_websites = [], gr_user_id = 7\<rparr>
     = Inr Popup
   \<and> post_generate [lit ''storage''] (\<lambda>a. None) (\<lambda>i files m. Some (lit ''archive-1'')) 1
        \<lparr>gr_prompt = lit ''timer'', gr_extension_type = lit ''popup'',
         gr_permissions = [lit ''storage''], gr_target_websites = [], gr_user_id = 7\<rparr>
     = (200, Some \<lparr>ga_id = 1, ga_user_id = 7, ga_archetype = Popup,
                   ga_permissions = [lit ''storage''], ga_files = [], ga_manifest = None,
                   ga_state = Failed, ga_handle = None, ga_error = Some TemplateMissing\<rparr>)
   \<and> render_simple (fst (handleGenerateExtension_simple None None
        (\<lambda>q. Responded \<lparr>status = 200, statusText = lit ''OK'', body_text = [],
                         body_json = Inr (failed_extension (lit ''TemplateMissing''))\<rparr>) 0
        (initial_simple\<lparr>step := 2, prompt := lit ''timer'', selectedType := lit ''popup''\<rparr>)))
     = FailureCard (lit ''TemplateMissing'')
   \<and> render_simple (fst (handleGenerateExtension_simple None None
        (\<lambda>q. Rejected (ErrorObj (lit ''Failed to fetch''))) 0
        (initial_simple\<lparr>step := 2, prompt := lit ''timer'', selectedType := lit ''popup''\<rparr>)))
     = FailureCard (lit ''Failed to fetch'')
   \<and> generatedExtension (fst (handleGenerateExtension_simple None None
        (\<lambda>q. Responded \<lparr>status = 500, statusText = lit ''Internal Server Error'',
                         body_text = lit ''boom'', body_json = Inl NonError\<rparr>) 0
        (initial_simple\<lparr>step := 2, prompt := lit ''timer'', selectedType := lit ''popup''\<rparr>)))
     = Some (failed_extension (lit ''Extension generation failed: 500 Internal Server Error''))
   \<and> render_simple (fst (handleGenerateExtension_simple None None
        (\<lambda>q. Responded \<lparr>status = 500, statusText = lit ''Internal Server Error'',
                         body_text = lit ''boom'', body_json = Inl NonError\<rparr>) 0
        (initial_simple\<lparr>step := 2, prompt := lit ''timer'', selectedType := lit ''popup''\<rparr>)))
     = FailureCard (lit ''Extension generation failed: 500 Internal Server Error'')
   \<and> render_simple (fst (handleGenerateExtension_simple None None
        (\<lambda>q. Responded \<lparr>status = 200, statusText = lit ''OK'', body_text = lit ''<html>'',
                         body_json = Inl (ErrorObj (lit ''Unexpected token''))\<rparr>) 0
        (initial_simple\<lparr>step := 2, prompt := lit ''timer'', selectedType := lit ''popup''\<rparr>)))
     = FailureCard (lit ''Unexpected token'')
   \<and> render_simple (fst (handleGenerateExtension_simple (Some (\<lambda>d. Some NonError)) None
        (\<lambda>q. Responded \<lparr>status = 200, statusText = lit ''OK'', body_text = [],
                         body_json = Inr (failed_extension [])\<rparr>) 0
        (initial_simple\<lparr>step := 2, prompt := lit ''timer'', selectedType := lit ''popup''\<rparr>)))
     = FailureCard (lit ''Extension generation failed. Please try again.'')
   \<and> generatedExtension (fst (handleGenerateExtension_simple (Some (\<lambda>d. None)) None
        (\<lambda>q. Responded \<lparr>status = 200, statusText = lit ''OK'', body_text = [],
                         body_json = Inr (failed_extension [])\<rparr>) 0
        (initial_simple\<lparr>step := 2, prompt := lit ''timer'', selectedType := lit ''popup''\<rparr>)))
     = Some (failed_extension [])"
proof -
  let ?cat = "[lit ''storage'']"
  let ?req = "\<lparr>gr_prompt = lit ''timer'', gr_extension_type = lit ''popup'',
       gr_permissions = [lit ''storage''], gr_target_websites = [], gr_user_id = 7\<rparr>"
  let ?tpl = "\<lambda>a::archetype. None :: FileSet option"
  let ?pkg = "\<lambda>(i::nat) (files::FileSet) (m::Manifest). Some (lit ''archive-1'')"
  let ?a = "\<lparr>ga_id = 1, ga_user_id = 7, ga_archetype = Popup,
            ga_permissions = [lit ''storage''], ga_files = [], ga_manifest = None,
            ga_state = Failed, ga_handle = None, ga_error = Some TemplateMissing\<rparr>"
  let ?st = "initial_simple\<lparr>step := 2, prompt := lit ''timer'', selectedType := lit ''popup''\<rparr>"
  let ?ok = "\<lparr>status = 200, statusText = lit ''OK'', body_text = [],
             body_json = Inr (failed_extension (lit ''TemplateMissing''))\<rparr>"
  let ?r500 = "\<lparr>status = 500, statusText = lit ''Internal Server Error'',
                body_text = lit ''boom'', body_json = Inl NonError :: js_thrown + extension_data\<rparr>"
  let ?bad = "\<lparr>status = 200, statusText = lit ''OK'', body_text = lit ''<html>'',
               body_json = Inl (ErrorObj (lit ''Unexpected token'')) :: js_thrown + extension_data\<rparr>"
  let ?emp = "\<lparr>status = 200, statusText = lit ''OK'', body_text = [],
               body_json = Inr (failed_extension [])\<rparr>"
  have v: "validate ?cat ?req = Inr Popup"
    by (simp add: validate_def archetype_of_def lit_def)
  have sh: "request_shape ?cat ?req = Inr Popup"
    by (simp add: request_shape_def v)
  have g: "generate ?cat ?tpl ?pkg 1 ?req = Inr ?a"
    by (simp add: generate_def v build_def Let_def)
  note thm0 = generation_failure_is_returned [OF sh, where templates = ?tpl and packager = ?pkg
      and i = 1]
  have pg: "post_generate ?cat ?tpl ?pkg 1 ?req = (200, Some ?a)"
    using thm0 [where f = "\<lambda>q. Rejected NonError" and st = ?st] g by auto
  have ui: "\<forall>g r d t n s.
            g (generate_request_simple t s) = Responded r
            \<and> status r = fst (post_generate ?cat ?tpl ?pkg 1 ?req)
            \<and> body_json r = Inr d \<and> ext_error d = summary_error ?a \<longrightarrow>
              spinner (fst (handleGenerateExtension_simple None t g n s)) = False
              \<and> render_simple (fst (handleGenerateExtension_simple None t g n s)) =
                  (if ga_state ?a = Failed then FailureCard (interp (summary_error ?a))
                   else SuccessCard d)"
    using thm0 [where f = "\<lambda>q. Rejected NonError" and st = ?st] g by auto
  have c1: "render_simple (fst (handleGenerateExtension_simple None None (\<lambda>q. Responded ?ok) 0 ?st))
      = FailureCard (lit ''TemplateMissing'')"
    using ui [rule_format, of "\<lambda>q. Responded ?ok" None ?st ?ok
        "failed_extension (lit ''TemplateMissing'')" 0] pg
    by (simp add: summary_error_def failed_extension_def)
  have c2: "render_simple (fst (handleGenerateExtension_simple None None
        (\<lambda>q. Rejected (ErrorObj (lit ''Failed to fetch''))) 0 ?st))
      = FailureCard (lit ''Failed to fetch'')"
    using thm0 [where f = "\<lambda>q. Rejected (ErrorObj (lit ''Failed to fetch''))" and st = ?st
        and cb = None and tok = None and k = 0 and e = "ErrorObj (lit ''Failed to fetch'')"]
    by (simp add: lit_def)
  have c3: "generatedExtension (fst (handleGenerateExtension_simple None None
        (\<lambda>q. Responded ?r500) 0 ?st))
      = Some (failed_extension (lit ''Extension generation failed: 500 Internal Server Error''))
    \<and> render_simple (fst (handleGenerateExtension_simple None None (\<lambda>q. Responded ?r500) 0 ?st))
      = FailureCard (lit ''Extension generation failed: 500 Internal Server Error'')"
    using thm0 [where f = "\<lambda>q. Responded ?r500" and st = ?st
        and cb = None and tok = None and k = 0 and r = ?r500]
    by (simp add: ok_def lit_def show_nat.simps)
  have c4: "render_simple (fst (handleGenerateExtension_simple None None (\<lambda>q. Responded ?bad) 0 ?st))
      = FailureCard (lit ''Unexpected token'')"
    using thm0 [where f = "\<lambda>q. Responded ?bad" and st = ?st
        and cb = None and tok = None and k = 0 and r = ?bad
        and e = "ErrorObj (lit ''Unexpected token'')"]
    by (simp add: ok_def lit_def)
  have c5: "render_simple (fst (handleGenerateExtension_simple (Some (\<lambda>d. Some NonError)) None
        (\<lambda>q. Responded ?emp) 0 ?st))
      = FailureCard (lit ''Extension generation failed. Please try again.'')"
    using thm0 [where f = "\<lambda>q. Responded ?emp" and st = ?st
        and cb = "Some (\<lambda>d. Some NonError)" and tok = None and k = 0 and r = ?emp
        and c = "\<lambda>d. Some NonError" and d = "failed_extension []" and e = NonError]
    by (simp add: ok_def lit_def)
  have c6: "generatedExtension (fst (handleGenerateExtension_simple (Some (\<lambda>d. None)) None
        (\<lambda>q. Responded ?emp) 0 ?st)) = Some (failed_extension [])"
    using thm0 [where f = "\<lambda>q. Responded ?emp" and st = ?st
        and cb = "Some (\<lambda>d. None)" and tok = None and k = 0 and r = ?emp
        and d = "failed_extension []"]
    by (simp add: ok_def)
  show ?thesis
    by (intro conjI sh pg c1 c2 c3 [THEN conjunct1] c3 [THEN conjunct2] c4 c5 c6)
qed

end
